theory Spec2Isabelle
  imports Complex_Main
begin

section \<open>The JavaScript values the clients handle\<close>

text \<open>
  A rejected promise and a thrown exception are the left summand of a sum type: a method
  of the source that is declared \<^verbatim>\<open>async f(...): Promise<T>\<close> is a function into
  \<open>js_error + T\<close>. \<open>Error m\<close> is \<^verbatim>\<open>new Error(m)\<close>; the other constructors are the
  exceptions the runtime itself raises.
\<close>

datatype js_error =
    Error string
  | TypeError string
  | SyntaxError string
  | NetworkError string

text \<open>
  \<^verbatim>\<open>new Error(result.error)\<close> with \<^verbatim>\<open>error?: string\<close>: an undefined message is the
  empty message.
\<close>

definition new_Error :: "string option \<Rightarrow> js_error" where
  "new_Error m = Error (case m of None \<Rightarrow> [] | Some s \<Rightarrow> s)"

text \<open>
  Request parameters of type \<^verbatim>\<open>number\<close> (\<^verbatim>\<open>limit\<close>, \<^verbatim>\<open>height\<close>, altitude bounds,
  timestamps) are modelled as integers; \<^verbatim>\<open>n.toString()\<close> is then the decimal numeral
  (which is what JavaScript prints for an integer below \<open>10\<^sup>2\<^sup>1\<close> in magnitude).
  Truthiness is JavaScript's: a number is truthy unless it is zero, a string unless it is
  empty, an optional field only when it is present (an array, when present, always).
\<close>

fun digit_chars :: "nat \<Rightarrow> string" where
  "digit_chars n =
     (if n < 10 then [''0123456789'' ! n]
      else digit_chars (n div 10) @ [''0123456789'' ! (n mod 10)])"

declare digit_chars.simps [simp del]

definition Number_toString :: "int \<Rightarrow> string" where
  "Number_toString i =
     (if i < 0 then CHR ''-'' # digit_chars (nat (- i)) else digit_chars (nat i))"

text \<open>
  \<^verbatim>\<open>params?.f\<close>: undefined when \<^verbatim>\<open>params\<close> is undefined, the field otherwise.
\<close>

definition opt_chain :: "'p option \<Rightarrow> ('p \<Rightarrow> 'a option) \<Rightarrow> 'a option" where
  "opt_chain params f = (case params of None \<Rightarrow> None | Some p \<Rightarrow> f p)"

subsection \<open>URLSearchParams\<close>

text \<open>
  The entries in insertion order. \<^verbatim>\<open>set(name, value)\<close> overwrites the first entry of
  that name and drops the others, or appends. \<^verbatim>\<open>toString()\<close> (which the template
  literal \<^verbatim>\<open>`...?${searchParams}`\<close> calls) is the form-urlencoded serialisation:
  letters, digits and \<^verbatim>\<open>*-._\<close> stay, a space becomes \<^verbatim>\<open>+\<close>, every other byte is
  \<^verbatim>\<open>%XX\<close>.
\<close>

type_synonym URLSearchParams = "(string \<times> string) list"

fun URLSearchParams_set :: "URLSearchParams \<Rightarrow> string \<Rightarrow> string \<Rightarrow> URLSearchParams" where
  "URLSearchParams_set [] name v = [(name, v)]"
| "URLSearchParams_set ((k, w) # rest) name v =
     (if k = name then (name, v) # filter (\<lambda>e. fst e \<noteq> name) rest
      else (k, w) # URLSearchParams_set rest name v)"

definition urlencoded_plain :: string where
  "urlencoded_plain =
     ''ABCDEFGHIJKLMNOPQRSTUVWXYZabcdefghijklmnopqrstuvwxyz0123456789*-._''"

definition urlencode_byte :: "char \<Rightarrow> string" where
  "urlencode_byte c =
     (if c \<in> set urlencoded_plain then [c]
      else if c = CHR '' '' then ''+''
      else [CHR ''%'', ''0123456789ABCDEF'' ! ((of_char c :: nat) div 16),
            ''0123456789ABCDEF'' ! ((of_char c :: nat) mod 16)])"

definition urlencode :: "string \<Rightarrow> string" where
  "urlencode s = concat (map urlencode_byte s)"

fun join_amp :: "string list \<Rightarrow> string" where
  "join_amp [] = []"
| "join_amp [s] = s"
| "join_amp (s # t # rest) = s @ ''&'' @ join_amp (t # rest)"

definition URLSearchParams_toString :: "URLSearchParams \<Rightarrow> string" where
  "URLSearchParams_toString sp =
     join_amp (map (\<lambda>e. urlencode (fst e) @ ''='' @ urlencode (snd e)) sp)"

text \<open>
  \<^verbatim>\<open>if (v) searchParams.set(name, v.toString())\<close> for an optional number, and
  \<^verbatim>\<open>if (v) searchParams.set(name, v)\<close> for an optional string: the entry is set only
  when the value is truthy.
\<close>

definition set_if_number :: "URLSearchParams \<Rightarrow> string \<Rightarrow> int option \<Rightarrow> URLSearchParams" where
  "set_if_number sp name v =
     (case v of
        None \<Rightarrow> sp
      | Some n \<Rightarrow> if n \<noteq> 0 then URLSearchParams_set sp name (Number_toString n) else sp)"

definition set_if_string :: "URLSearchParams \<Rightarrow> string \<Rightarrow> string option \<Rightarrow> URLSearchParams" where
  "set_if_string sp name v =
     (case v of
        None \<Rightarrow> sp
      | Some s \<Rightarrow> if s \<noteq> [] then URLSearchParams_set sp name s else sp)"

subsection \<open>fetch\<close>

text \<open>
  A request is what \<^verbatim>\<open>fetch(url, init)\<close> sends. A response carries the \<^verbatim>\<open>ok\<close> flag
  of its status line and what \<^verbatim>\<open>response.json()\<close> resolves to: the parsed body, or the
  \<open>SyntaxError\<close> of a body that is not JSON. The remote service is a parameter of every
  method: a function from the request to the response, or to the error \<^verbatim>\<open>fetch\<close>
  rejects with when the network fails.
\<close>

datatype http_method = GET | POST

record request =
  url :: string
  http_method :: http_method
  headers :: "(string \<times> string) list"
  body :: "string option"

record 'b response =
  ok :: bool
  json :: "js_error + 'b"

type_synonym 'b server = "request \<Rightarrow> js_error + 'b response"

definition GET_request :: "string \<Rightarrow> request" where
  "GET_request u = \<lparr>url = u, http_method = GET, headers = [], body = None\<rparr>"

section \<open>Domain records\<close>

text \<open>
  The interfaces of the source. Where two interfaces have a field of the same name, or
  the name is taken, the field carries a prefix: \<open>t_\<close> for \<^verbatim>\<open>Transaction\<close>,
  \<open>p_\<close> for the payload of a submission, \<open>c_transactions\<close> for the client's own
  \<^verbatim>\<open>transactions\<close>, \<open>size_bytes\<close> for a block's \<^verbatim>\<open>size\<close>.
\<close>

datatype TransactionMetadataValue =
  MString string | MNumber int | MBool bool | MNull

type_synonym TransactionMetadata = "(string \<times> TransactionMetadataValue) list"

datatype TransactionType =
  debris_capture | material_processing | satellite_servicing | power_transfer

datatype TransactionStatus = pending | confirmed | failed

record Transaction =
  t_id :: string
  t_type :: TransactionType
  t_timestamp :: string
  t_blockHeight :: int
  t_hash :: string
  t_from :: string
  t_to :: string
  t_data :: TransactionMetadata
  t_status :: TransactionStatus
  t_gasUsed :: int
  t_signature :: string

record Block =
  height :: int
  hash :: string
  timestamp :: string
  previousHash :: string
  merkleRoot :: string
  transactions :: "string list"
  validator :: string
  gasUsed :: int
  gasLimit :: int
  difficulty :: int
  nonce :: int
  size_bytes :: int

text \<open>\<^verbatim>\<open>Block | Block[]\<close>, the \<^verbatim>\<open>data\<close> of a blocks response.\<close>

datatype BlockData = OneBlock Block | ManyBlocks "Block list"

text \<open>
  The object every blockchain endpoint answers with,
  \<^verbatim>\<open>{ success: boolean; data: D; total: T; error?: string }\<close>, and the object
  \<^verbatim>\<open>{ data, total }\<close> the listing methods return.
\<close>

record ('d, 't) envelope =
  success :: bool
  data :: 'd
  total :: 't
  error :: "string option"

record ('d, 't) listing =
  l_data :: 'd
  l_total :: 't

section \<open>The state of the page\<close>

text \<open>
  The fields of the singleton \<^verbatim>\<open>blockchainClient\<close>, and the requests the page has
  issued so far, oldest first. \<^verbatim>\<open>NASADebrisClient\<close> has no fields. Every method of
  either class takes the state and returns its result with the state after the call.
\<close>

record BlockchainClient =
  baseUrl :: string
  blocks :: "Block list"
  c_transactions :: "Transaction list"

record world =
  client :: BlockchainClient
  network :: "request list"

text \<open>\<^verbatim>\<open>await fetch(...)\<close>: one request goes out and is answered.\<close>

definition fetch :: "'b server \<Rightarrow> request \<Rightarrow> world \<Rightarrow> (js_error + 'b response) \<times> world" where
  "fetch srv req w = (srv req, w\<lparr>network := network w @ [req]\<rparr>)"

text \<open>The constructor, with its default \<^verbatim>\<open>baseUrl = "/api/blockchain"\<close>.\<close>

definition new_BlockchainClient :: "string option \<Rightarrow> BlockchainClient" where
  "new_BlockchainClient b =
     \<lparr>baseUrl = (case b of None \<Rightarrow> ''/api/blockchain'' | Some u \<Rightarrow> u),
      blocks = [], c_transactions = []\<rparr>"

section \<open>NASADebrisClient\<close>

record DebrisParams =
  dp_altitude :: "(int \<times> int) option"
  dp_size :: "(int \<times> int) option"
  dp_limit :: "int option"
  dp_type :: "string list option"

text \<open>The \<^verbatim>\<open>searchParams\<close> that \<^verbatim>\<open>getDebrisData\<close> builds before it fetches.\<close>

definition getDebrisData_searchParams :: "DebrisParams option \<Rightarrow> URLSearchParams" where
  "getDebrisData_searchParams params =
     (let searchParams = [];
          searchParams = set_if_number searchParams ''limit'' (opt_chain params dp_limit);
          searchParams =
            (case opt_chain params dp_altitude of
               None \<Rightarrow> searchParams
             | Some altitude \<Rightarrow>
                 URLSearchParams_set
                   (URLSearchParams_set searchParams ''altitudeMin''
                      (Number_toString (fst altitude)))
                   ''altitudeMax'' (Number_toString (snd altitude)))
      in searchParams)"

definition getDebrisData_request :: "DebrisParams option \<Rightarrow> request" where
  "getDebrisData_request params =
     GET_request (''/api/nasa/debris?'' @
       URLSearchParams_toString (getDebrisData_searchParams params))"

definition getDebrisData ::
  "'d server \<Rightarrow> DebrisParams option \<Rightarrow> world \<Rightarrow> (js_error + 'd) \<times> world" where
  "getDebrisData srv params w =
     (case fetch srv (getDebrisData_request params) w of
        (Inl e, w') \<Rightarrow> (Inl e, w')
      | (Inr response, w') \<Rightarrow>
          if \<not> ok response then (Inl (Error ''Failed to fetch debris data''), w')
          else (json response, w'))"

definition getDebrisStatistics :: "'d server \<Rightarrow> world \<Rightarrow> (js_error + 'd) \<times> world" where
  "getDebrisStatistics srv w =
     (case fetch srv (GET_request ''/api/nasa/statistics'') w of
        (Inl e, w') \<Rightarrow> (Inl e, w')
      | (Inr response, w') \<Rightarrow>
          if \<not> ok response then (Inl (Error ''Failed to fetch debris statistics''), w')
          else (case json response of
                  Inl e \<Rightarrow> (Inl e, w')
                | Inr stats \<Rightarrow> (Inr stats, w')))"

section \<open>BlockchainClient: the request methods\<close>

record TransactionsParams =
  tp_type :: "string option"
  tp_status :: "string option"
  tp_limit :: "int option"

record BlocksParams =
  bp_limit :: "int option"
  bp_height :: "int option"

record ContractsParams =
  cp_type :: "string option"
  cp_address :: "string option"

definition getTransactions_searchParams :: "TransactionsParams option \<Rightarrow> URLSearchParams" where
  "getTransactions_searchParams params =
     (let searchParams = [];
          searchParams = set_if_string searchParams ''type'' (opt_chain params tp_type);
          searchParams = set_if_string searchParams ''status'' (opt_chain params tp_status);
          searchParams = set_if_number searchParams ''limit'' (opt_chain params tp_limit)
      in searchParams)"

definition getTransactions_request :: "BlockchainClient \<Rightarrow> TransactionsParams option \<Rightarrow> request" where
  "getTransactions_request this params =
     GET_request (baseUrl this @ ''/transactions?'' @
       URLSearchParams_toString (getTransactions_searchParams params))"

definition getTransactions ::
  "(Transaction list, int) envelope server \<Rightarrow> TransactionsParams option \<Rightarrow> world \<Rightarrow>
     (js_error + (Transaction list, int) listing) \<times> world" where
  "getTransactions srv params w =
     (case fetch srv (getTransactions_request (client w) params) w of
        (Inl e, w') \<Rightarrow> (Inl e, w')
      | (Inr response, w') \<Rightarrow>
          (case json response of
             Inl e \<Rightarrow> (Inl e, w')
           | Inr result \<Rightarrow>
               if \<not> success result then (Inl (new_Error (error result)), w')
               else (Inr \<lparr>l_data = data result, l_total = total result\<rparr>, w')))"

definition getBlocks_searchParams :: "BlocksParams option \<Rightarrow> URLSearchParams" where
  "getBlocks_searchParams params =
     (let searchParams = [];
          searchParams = set_if_number searchParams ''limit'' (opt_chain params bp_limit);
          searchParams = set_if_number searchParams ''height'' (opt_chain params bp_height)
      in searchParams)"

definition getBlocks_request :: "BlockchainClient \<Rightarrow> BlocksParams option \<Rightarrow> request" where
  "getBlocks_request this params =
     GET_request (baseUrl this @ ''/blocks?'' @
       URLSearchParams_toString (getBlocks_searchParams params))"

definition getBlocks ::
  "(BlockData, int option) envelope server \<Rightarrow> BlocksParams option \<Rightarrow> world \<Rightarrow>
     (js_error + (BlockData, int option) listing) \<times> world" where
  "getBlocks srv params w =
     (case fetch srv (getBlocks_request (client w) params) w of
        (Inl e, w') \<Rightarrow> (Inl e, w')
      | (Inr response, w') \<Rightarrow>
          (case json response of
             Inl e \<Rightarrow> (Inl e, w')
           | Inr result \<Rightarrow>
               if \<not> success result then (Inl (new_Error (error result)), w')
               else (Inr \<lparr>l_data = data result, l_total = total result\<rparr>, w')))"

text \<open>
  The remaining methods hand the \<^verbatim>\<open>data\<close> of the response through without looking
  into it, so its type (\<^verbatim>\<open>SmartContract | SmartContract[]\<close>,
  \<^verbatim>\<open>ContractExecutionResult\<close>, \<^verbatim>\<open>BlockchainAnalytics\<close>) is a type variable.
\<close>

definition getSmartContracts_searchParams :: "ContractsParams option \<Rightarrow> URLSearchParams" where
  "getSmartContracts_searchParams params =
     (let searchParams = [];
          searchParams = set_if_string searchParams ''type'' (opt_chain params cp_type);
          searchParams = set_if_string searchParams ''address'' (opt_chain params cp_address)
      in searchParams)"

definition getSmartContracts_request :: "BlockchainClient \<Rightarrow> ContractsParams option \<Rightarrow> request" where
  "getSmartContracts_request this params =
     GET_request (baseUrl this @ ''/smart-contracts?'' @
       URLSearchParams_toString (getSmartContracts_searchParams params))"

definition getSmartContracts ::
  "('d, int option) envelope server \<Rightarrow> ContractsParams option \<Rightarrow> world \<Rightarrow>
     (js_error + ('d, int option) listing) \<times> world" where
  "getSmartContracts srv params w =
     (case fetch srv (getSmartContracts_request (client w) params) w of
        (Inl e, w') \<Rightarrow> (Inl e, w')
      | (Inr response, w') \<Rightarrow>
          (case json response of
             Inl e \<Rightarrow> (Inl e, w')
           | Inr result \<Rightarrow>
               if \<not> success result then (Inl (new_Error (error result)), w')
               else (Inr \<lparr>l_data = data result, l_total = total result\<rparr>, w')))"

text \<open>
  \<^verbatim>\<open>executeContract\<close> posts \<^verbatim>\<open>JSON.stringify(params)\<close>. The serialiser is the
  runtime's and is a parameter, as is the type of the \<^verbatim>\<open>params\<close> object it is
  applied to.
\<close>

definition executeContract_request :: "('p \<Rightarrow> string) \<Rightarrow> BlockchainClient \<Rightarrow> 'p \<Rightarrow> request" where
  "executeContract_request JSON_stringify this params =
     \<lparr>url = baseUrl this @ ''/smart-contracts'',
      http_method = POST,
      headers = [(''Content-Type'', ''application/json'')],
      body = Some (JSON_stringify params)\<rparr>"

definition executeContract ::
  "('p \<Rightarrow> string) \<Rightarrow> ('d, 't) envelope server \<Rightarrow> 'p \<Rightarrow> world \<Rightarrow> (js_error + 'd) \<times> world" where
  "executeContract JSON_stringify srv params w =
     (case fetch srv (executeContract_request JSON_stringify (client w) params) w of
        (Inl e, w') \<Rightarrow> (Inl e, w')
      | (Inr response, w') \<Rightarrow>
          (case json response of
             Inl e \<Rightarrow> (Inl e, w')
           | Inr result \<Rightarrow>
               if \<not> success result then (Inl (new_Error (error result)), w')
               else (Inr (data result), w')))"

text \<open>\<^verbatim>\<open>getAnalytics(timeframe = "7d")\<close>; the timeframe goes into the URL as it is.\<close>

definition getAnalytics_request :: "BlockchainClient \<Rightarrow> string option \<Rightarrow> request" where
  "getAnalytics_request this timeframe =
     GET_request (baseUrl this @ ''/analytics?timeframe='' @
       (case timeframe of None \<Rightarrow> ''7d'' | Some t \<Rightarrow> t))"

definition getAnalytics ::
  "('d, 't) envelope server \<Rightarrow> string option \<Rightarrow> world \<Rightarrow> (js_error + 'd) \<times> world" where
  "getAnalytics srv timeframe w =
     (case fetch srv (getAnalytics_request (client w) timeframe) w of
        (Inl e, w') \<Rightarrow> (Inl e, w')
      | (Inr response, w') \<Rightarrow>
          (case json response of
             Inl e \<Rightarrow> (Inl e, w')
           | Inr result \<Rightarrow>
               if \<not> success result then (Inl (new_Error (error result)), w')
               else (Inr (data result), w')))"

section \<open>BlockchainClient.createTransaction\<close>

text \<open>
  The \<^verbatim>\<open>ethers\<close> library is not part of the repository; the operations the code and
  its callers use are the fields of a record that every definition below takes as a
  parameter. \<^verbatim>\<open>verifyMessage(message, signature)\<close> recovers the signer's address or
  throws on a malformed signature; \<^verbatim>\<open>signMessage\<close> is a wallet's signing operation
  (private key, then message) and \<^verbatim>\<open>computeAddress\<close> the address of a private key;
  \<^verbatim>\<open>ethers_id\<close> is the hash \<^verbatim>\<open>ethers.id\<close>; \<^verbatim>\<open>new_Wallet\<close> is the constructor
  \<^verbatim>\<open>new ethers.Wallet(privateKey)\<close>, which throws on a value that is no private key.
\<close>

record Wallet =
  privateKey :: string
  address :: string

record ethers =
  verifyMessage :: "string \<Rightarrow> string \<Rightarrow> js_error + string"
  signMessage :: "string \<Rightarrow> string \<Rightarrow> string"
  computeAddress :: "string \<Rightarrow> string"
  ethers_id :: "string \<Rightarrow> string"
  new_Wallet :: "string \<Rightarrow> js_error + Wallet"

text \<open>
  \<^verbatim>\<open>String.prototype.toLowerCase\<close> on the letters an address can contain: the
  twenty-six ASCII capitals are mapped, every other byte is left as it is.
\<close>

definition lower_char :: "char \<Rightarrow> char" where
  "lower_char c =
     (case map_of (zip ''ABCDEFGHIJKLMNOPQRSTUVWXYZ'' ''abcdefghijklmnopqrstuvwxyz'') c of
        None \<Rightarrow> c
      | Some l \<Rightarrow> l)"

definition toLowerCase :: "string \<Rightarrow> string" where
  "toLowerCase s = map lower_char s"

text \<open>
  The argument \<^verbatim>\<open>txData\<close>; \<^verbatim>\<open>const { signature, ...payload } = txData\<close> splits it
  into the signature and the record of the other fields.
\<close>

record TxPayload =
  p_type :: TransactionType
  p_data :: TransactionMetadata
  p_from :: string
  p_to :: string
  p_timestamp :: int

record TxData = TxPayload +
  signature :: string

text \<open>
  What one call reads from the runtime: \<^verbatim>\<open>JSON.stringify\<close> on a payload,
  the eight characters \<^verbatim>\<open>Math.random().toString(36).substring(2, 10)\<close>, and
  \<^verbatim>\<open>Date.now()\<close>.
\<close>

record runtime =
  JSON_stringify :: "TxPayload \<Rightarrow> string"
  Math_random_id :: string
  Date_now :: int

record CreateResult =
  cr_success :: bool

text \<open>The body of the \<^verbatim>\<open>try\<close> block: it completes or throws.\<close>

definition verify_signature :: "ethers \<Rightarrow> string \<Rightarrow> string \<Rightarrow> TxPayload \<Rightarrow> js_error + unit" where
  "verify_signature lib message sig payload =
     (case verifyMessage lib message sig of
        Inl e \<Rightarrow> Inl e
      | Inr signerAddress \<Rightarrow>
          if toLowerCase signerAddress \<noteq> toLowerCase (p_from payload)
          then Inl (Error ''Signature is invalid or does not match the sender's address.'')
          else Inr ())"

text \<open>
  \<^verbatim>\<open>this.blocks[this.blocks.length - 1].height\<close>: on an empty array the element is
  \<^verbatim>\<open>undefined\<close> and reading \<^verbatim>\<open>height\<close> from it throws a \<^verbatim>\<open>TypeError\<close>.
\<close>

definition last_block_height :: "Block list \<Rightarrow> js_error + int" where
  "last_block_height bs =
     (case bs of
        [] \<Rightarrow> Inl (TypeError ''Cannot read properties of undefined (reading 'height')'')
      | _ \<Rightarrow> Inr (height (last bs)))"

definition createTransaction ::
  "ethers \<Rightarrow> runtime \<Rightarrow> TxData \<Rightarrow> world \<Rightarrow> (js_error + CreateResult) \<times> world" where
  "createTransaction lib rt txData w =
     (let sig = signature txData;
          payload = TxPayload.truncate txData;
          message = JSON_stringify rt payload
      in case verify_signature lib message sig payload of
           Inl caught \<Rightarrow> (Inl (Error ''Invalid signature.''), w)
         | Inr _ \<Rightarrow>
             (case last_block_height (blocks (client w)) of
                Inl e \<Rightarrow> (Inl e, w)
              | Inr h \<Rightarrow>
                  let newTransaction =
                        \<lparr>t_id = ''tx_'' @ Math_random_id rt,
                         t_type = p_type payload,
                         t_timestamp = Number_toString (p_timestamp payload),
                         t_blockHeight = h,
                         t_hash = ethers_id lib
                                    (JSON_stringify rt payload @ Number_toString (Date_now rt)),
                         t_from = p_from payload,
                         t_to = p_to payload,
                         t_data = p_data payload,
                         t_status = confirmed,
                         t_gasUsed = 21000,
                         t_signature = sig\<rparr>
                  in (Inr \<lparr>cr_success = True\<rparr>,
                      w\<lparr>client := (client w)
                           \<lparr>c_transactions := newTransaction # c_transactions (client w)\<rparr>\<rparr>)))"

text \<open>
  The states of the page a program can bring about: the singleton is constructed, and
  then methods are called. None of the request methods assigns to a field of
  \<^verbatim>\<open>this\<close>; they are all listed, so that this is proved rather than assumed.
\<close>

inductive reachable :: "world \<Rightarrow> bool" where
  construct: "reachable \<lparr>client = new_BlockchainClient b, network = []\<rparr>"
| call_getDebrisData:
    "reachable w \<Longrightarrow> reachable (snd (getDebrisData (srv :: unit server) params w))"
| call_getDebrisStatistics:
    "reachable w \<Longrightarrow> reachable (snd (getDebrisStatistics (srv :: unit server) w))"
| call_getTransactions:
    "reachable w \<Longrightarrow> reachable (snd (getTransactions srv tparams w))"
| call_createTransaction:
    "reachable w \<Longrightarrow> reachable (snd (createTransaction lib rt txData w))"
| call_getBlocks:
    "reachable w \<Longrightarrow> reachable (snd (getBlocks srv bparams w))"
| call_getSmartContracts:
    "reachable w \<Longrightarrow>
       reachable (snd (getSmartContracts (srv :: (unit, int option) envelope server) cparams w))"
| call_executeContract:
    "reachable w \<Longrightarrow>
       reachable (snd (executeContract (js :: unit \<Rightarrow> string)
                         (srv :: (unit, unit) envelope server) eparams w))"
| call_getAnalytics:
    "reachable w \<Longrightarrow>
       reachable (snd (getAnalytics (srv :: (unit, unit) envelope server) timeframe w))"

section \<open>JSON.stringify on a payload\<close>

text \<open>
  \<^verbatim>\<open>JSON.stringify\<close> writes the properties of an object in the order in which they
  were added to it, so its result on \<^verbatim>\<open>payload\<close> depends on how the caller wrote
  \<^verbatim>\<open>txData\<close>; a record does not keep that order, which is why \<open>JSON_stringify\<close> is a
  parameter of the call. \<open>JSON_stringify_ordered order\<close> is \<^verbatim>\<open>JSON.stringify\<close> on a
  payload whose properties were written in \<open>order\<close> (and those of \<^verbatim>\<open>data\<close> in the
  order of the list): no white space, strings quoted with \<^verbatim>\<open>"\<close>, \<^verbatim>\<open>\\<close> and the
  control characters escaped, numbers in decimal.
\<close>

definition JSON_escape_char :: "char \<Rightarrow> string" where
  "JSON_escape_char c =
     (if c = CHR 0x22 then [CHR 0x5C, CHR 0x22]
      else if c = CHR 0x5C then [CHR 0x5C, CHR 0x5C]
      else if c = CHR 0x08 then [CHR 0x5C, CHR ''b'']
      else if c = CHR 0x0C then [CHR 0x5C, CHR ''f'']
      else if c = CHR 0x0A then [CHR 0x5C, CHR ''n'']
      else if c = CHR 0x0D then [CHR 0x5C, CHR ''r'']
      else if c = CHR 0x09 then [CHR 0x5C, CHR ''t'']
      else if (of_char c :: nat) < 32
      then [CHR 0x5C, CHR ''u'', CHR ''0'', CHR ''0'',
            ''0123456789abcdef'' ! ((of_char c :: nat) div 16),
            ''0123456789abcdef'' ! ((of_char c :: nat) mod 16)]
      else [c])"

definition JSON_quote :: "string \<Rightarrow> string" where
  "JSON_quote s = [CHR 0x22] @ concat (map JSON_escape_char s) @ [CHR 0x22]"

fun JSON_metadata_value :: "TransactionMetadataValue \<Rightarrow> string" where
  "JSON_metadata_value (MString s) = JSON_quote s"
| "JSON_metadata_value (MNumber n) = Number_toString n"
| "JSON_metadata_value (MBool b) = (if b then ''true'' else ''false'')"
| "JSON_metadata_value MNull = ''null''"

fun join_comma :: "string list \<Rightarrow> string" where
  "join_comma [] = []"
| "join_comma [s] = s"
| "join_comma (s # t # rest) = s @ '','' @ join_comma (t # rest)"

text \<open>An object, from its property names and their serialised values.\<close>

definition JSON_object :: "(string \<times> string) list \<Rightarrow> string" where
  "JSON_object members =
     ''{'' @ join_comma (map (\<lambda>e. JSON_quote (fst e) @ '':'' @ snd e) members) @ ''}''"

fun TransactionType_name :: "TransactionType \<Rightarrow> string" where
  "TransactionType_name debris_capture = ''debris_capture''"
| "TransactionType_name material_processing = ''material_processing''"
| "TransactionType_name satellite_servicing = ''satellite_servicing''"
| "TransactionType_name power_transfer = ''power_transfer''"

text \<open>The serialised value of the property of a payload with the given name.\<close>

definition payload_member :: "TxPayload \<Rightarrow> string \<Rightarrow> string option" where
  "payload_member p k =
     (if k = ''type'' then Some (JSON_quote (TransactionType_name (p_type p)))
      else if k = ''data''
      then Some (JSON_object (map (\<lambda>e. (fst e, JSON_metadata_value (snd e))) (p_data p)))
      else if k = ''from'' then Some (JSON_quote (p_from p))
      else if k = ''to'' then Some (JSON_quote (p_to p))
      else if k = ''timestamp'' then Some (Number_toString (p_timestamp p))
      else None)"

definition JSON_stringify_ordered :: "string list \<Rightarrow> TxPayload \<Rightarrow> string" where
  "JSON_stringify_ordered order p =
     JSON_object (List.map_filter (\<lambda>k. map_option (Pair k) (payload_member p k)) order)"

text \<open>
  The canonical JSON serialisation of a payload (RFC 8785): the same, with the
  properties sorted by name, those of \<^verbatim>\<open>data\<close> included. Names are compared byte
  by byte, which is the order of RFC 8785 on ASCII names.
\<close>

fun string_less :: "string \<Rightarrow> string \<Rightarrow> bool" where
  "string_less [] [] = False"
| "string_less [] (y # ys) = True"
| "string_less (x # xs) [] = False"
| "string_less (x # xs) (y # ys) =
     ((of_char x :: nat) < of_char y \<or> (x = y \<and> string_less xs ys))"

fun insert_member :: "string \<times> 'a \<Rightarrow> (string \<times> 'a) list \<Rightarrow> (string \<times> 'a) list" where
  "insert_member e [] = [e]"
| "insert_member e (m # ms) =
     (if string_less (fst e) (fst m) then e # m # ms else m # insert_member e ms)"

definition sort_members :: "(string \<times> 'a) list \<Rightarrow> (string \<times> 'a) list" where
  "sort_members ms = foldr insert_member ms []"

definition canonical_JSON :: "TxPayload \<Rightarrow> string" where
  "canonical_JSON p =
     JSON_stringify_ordered [''data'', ''from'', ''timestamp'', ''to'', ''type'']
       (p\<lparr>p_data := sort_members (p_data p)\<rparr>)"

section \<open>useWallet\<close>

text \<open>
  \<^verbatim>\<open>localStorage\<close> is a map from keys to values. The effect runs once, on mount, with
  the hook's state at \<^verbatim>\<open>null\<close>; it reads the wallet that
  \<^verbatim>\<open>ethers.Wallet.createRandom()\<close> would return as an input. Its result is the storage
  after the effect and the wallet the hook returns from then on. The calls to
  \<^verbatim>\<open>console\<close> are left out.
\<close>

type_synonym localStorage = "string \<rightharpoonup> string"

definition useWallet_effect ::
  "ethers \<Rightarrow> Wallet \<Rightarrow> localStorage \<times> Wallet option \<Rightarrow> localStorage \<times> Wallet option" where
  "useWallet_effect lib createRandom st =
     (let storage = fst st; wallet = snd st in
      case storage ''orbital-privateKey'' of
        None \<Rightarrow>
          (storage(''orbital-privateKey'' \<mapsto> privateKey createRandom), Some createRandom)
      | Some key \<Rightarrow>
          if key = [] then
            (storage(''orbital-privateKey'' \<mapsto> privateKey createRandom), Some createRandom)
          else
            (case new_Wallet lib key of
               Inl caught \<Rightarrow> (storage, wallet)
             | Inr existingWallet \<Rightarrow> (storage, Some existingWallet)))"

definition useWallet :: "ethers \<Rightarrow> Wallet \<Rightarrow> localStorage \<Rightarrow> localStorage \<times> Wallet option" where
  "useWallet lib createRandom storage = useWallet_effect lib createRandom (storage, None)"

section \<open>The scene components\<close>

text \<open>
  A \<^verbatim>\<open>number\<close> of the scene is modelled as a real and \<^verbatim>\<open>Math.sin\<close>,
  \<^verbatim>\<open>Math.cos\<close>, \<^verbatim>\<open>Math.floor\<close> as the functions on the reals. Each component is
  the record of what its \<^verbatim>\<open>useFrame\<close> callback reads and writes: the objects its
  refs point to (\<open>None\<close> while a ref is \<^verbatim>\<open>null\<close>), the values it keeps in
  \<^verbatim>\<open>useRef\<close> and its \<^verbatim>\<open>useState\<close> values. The callback is a function from the
  props, the elapsed time \<^verbatim>\<open>state.clock.getElapsedTime()\<close> and the record before the
  frame to the record after it.
\<close>

record Vector3 =
  vec_x :: real
  vec_y :: real
  vec_z :: real

text \<open>A material; the argument of the two emissive kinds is \<^verbatim>\<open>emissiveIntensity\<close>.\<close>

datatype Material =
  MeshStandardMaterial real | MeshPhysicalMaterial real | MeshBasicMaterial

datatype MeshMaterial = One Material | Many "Material list"

record Object3D =
  position :: Vector3
  rotation :: Vector3
  scale :: Vector3

record Mesh = Object3D +
  material :: MeshMaterial

fun isEmissiveMaterial :: "Material \<Rightarrow> bool" where
  "isEmissiveMaterial (MeshStandardMaterial i) = True"
| "isEmissiveMaterial (MeshPhysicalMaterial i) = True"
| "isEmissiveMaterial MeshBasicMaterial = False"

fun set_emissiveIntensity :: "Material \<Rightarrow> real \<Rightarrow> Material" where
  "set_emissiveIntensity (MeshStandardMaterial i) intensity = MeshStandardMaterial intensity"
| "set_emissiveIntensity (MeshPhysicalMaterial i) intensity = MeshPhysicalMaterial intensity"
| "set_emissiveIntensity MeshBasicMaterial intensity = MeshBasicMaterial"

definition applyEmissiveIntensity :: "Mesh option \<Rightarrow> real \<Rightarrow> Mesh option" where
  "applyEmissiveIntensity mesh intensity =
     (case mesh of
        None \<Rightarrow> None
      | Some m \<Rightarrow>
          Some (m\<lparr>material :=
            (case material m of
               Many ms \<Rightarrow>
                 Many (map (\<lambda>childMaterial.
                         if isEmissiveMaterial childMaterial
                         then set_emissiveIntensity childMaterial intensity
                         else childMaterial) ms)
             | One mat \<Rightarrow>
                 if isEmissiveMaterial mat then One (set_emissiveIntensity mat intensity)
                 else One mat)\<rparr>))"

text \<open>JavaScript's \<^verbatim>\<open>%\<close> on integers: the remainder has the sign of the dividend.\<close>

definition js_rem :: "int \<Rightarrow> int \<Rightarrow> int" where
  "js_rem a b = sgn a * (\<bar>a\<bar> mod \<bar>b\<bar>)"

subsection \<open>RoboticArm\<close>

record RoboticArm =
  ra_armRef :: "Object3D option"
  ra_joint1Ref :: "Mesh option"
  ra_joint2Ref :: "Mesh option"
  ra_effectorRef :: "Mesh option"
  ra_animationPhaseRef :: real
  ra_activityProgress :: int
  ra_lastHudProgressRef :: int

text \<open>
  On mount: \<^verbatim>\<open>animationPhaseRef = useRef(Math.random() * Math.PI * 2)\<close>, with the
  value of \<^verbatim>\<open>Math.random()\<close> as an input.
\<close>

definition RoboticArm_mount ::
  "real \<Rightarrow> Object3D \<Rightarrow> Mesh \<Rightarrow> Mesh \<Rightarrow> Mesh \<Rightarrow> RoboticArm" where
  "RoboticArm_mount random arm joint1 joint2 effector =
     \<lparr>ra_armRef = Some arm, ra_joint1Ref = Some joint1, ra_joint2Ref = Some joint2,
      ra_effectorRef = Some effector, ra_animationPhaseRef = random * pi * 2,
      ra_activityProgress = 0, ra_lastHudProgressRef = 0\<rparr>"

definition RoboticArm_frame :: "bool \<Rightarrow> real \<Rightarrow> RoboticArm \<Rightarrow> RoboticArm" where
  "RoboticArm_frame isActive time s =
     (let phase = ra_animationPhaseRef s in
      if \<not> isActive then
        (if ra_lastHudProgressRef s \<noteq> 0
         then s\<lparr>ra_lastHudProgressRef := 0, ra_activityProgress := 0\<rparr>
         else s)
      else
        let s = s\<lparr>ra_armRef := map_option
                  (\<lambda>g. g\<lparr>rotation := (rotation g)\<lparr>vec_y := sin (time * 0.4 + phase) * 0.5\<rparr>\<rparr>)
                  (ra_armRef s)\<rparr>;
            s = s\<lparr>ra_joint1Ref := map_option
                  (\<lambda>m. m\<lparr>rotation := (rotation m)\<lparr>vec_z := cos (time * 0.6 + phase) * 0.3\<rparr>\<rparr>)
                  (ra_joint1Ref s)\<rparr>;
            s = s\<lparr>ra_joint2Ref := map_option
                  (\<lambda>m. m\<lparr>rotation := (rotation m)\<lparr>vec_x := sin (time * 0.8 + phase) * 0.4\<rparr>\<rparr>)
                  (ra_joint2Ref s)\<rparr>;
            s = s\<lparr>ra_effectorRef := applyEmissiveIntensity
                  (map_option
                     (\<lambda>m. m\<lparr>scale := (scale m)\<lparr>vec_x := 1 + sin (time * 2 + phase) * 0.2\<rparr>\<rparr>)
                     (ra_effectorRef s))
                  (0.3 + sin (time * 3 + phase) * 0.2)\<rparr>;
            hudProgress = \<lfloor>(sin (time * 0.6 + phase) + 1) * 50\<rfloor>
        in if hudProgress \<noteq> ra_lastHudProgressRef s
           then s\<lparr>ra_lastHudProgressRef := hudProgress, ra_activityProgress := hudProgress\<rparr>
           else s)"

subsection \<open>Furnace\<close>

record Furnace =
  f_glowRef :: "Mesh option"
  f_processingRef :: "Mesh option"
  f_outputRef :: "Mesh option"

definition Furnace_frame :: "bool \<Rightarrow> real \<Rightarrow> Furnace \<Rightarrow> Furnace" where
  "Furnace_frame isActive time s =
     (let s = (if isActive then
                 s\<lparr>f_glowRef := map_option
                      (\<lambda>m. m\<lparr>scale := \<lparr>vec_x = 1 + sin (time * 2) * 0.05,
                                       vec_y = 1 + sin (time * 2) * 0.05,
                                       vec_z = 1 + sin (time * 2) * 0.05\<rparr>\<rparr>)
                      (applyEmissiveIntensity (f_glowRef s) (0.6 + sin (time * 3) * 0.3))\<rparr>
               else s);
          s = (if isActive then
                 s\<lparr>f_processingRef := applyEmissiveIntensity
                      (map_option
                         (\<lambda>m. m\<lparr>rotation := (rotation m)\<lparr>vec_y := vec_y (rotation m) + 0.03\<rparr>\<rparr>)
                         (f_processingRef s))
                      (0.3 + sin (time * 4) * 0.2)\<rparr>
               else s);
          s = (if isActive then
                 s\<lparr>f_outputRef := map_option
                      (\<lambda>m. m\<lparr>position := (position m)\<lparr>vec_y := 0.1 + sin (time * 1.5) * 0.02\<rparr>\<rparr>)
                      (f_outputRef s)\<rparr>
               else s)
      in s)"

text \<open>
  The two readouts of the furnace's panel, computed when the component renders: the
  temperature from \<^verbatim>\<open>Date.now()\<close> and the output from \<^verbatim>\<open>Math.random()\<close>. The
  panel is rendered only while the furnace is active.
\<close>

definition Furnace_hud :: "bool \<Rightarrow> real \<Rightarrow> real \<Rightarrow> (int \<times> int) option" where
  "Furnace_hud isActive Date_now_ms random =
     (if isActive
      then Some (1650 + \<lfloor>sin (Date_now_ms * 0.01) * 50\<rfloor>, \<lfloor>random * 50\<rfloor> + 25)
      else None)"

subsection \<open>Printer3D\<close>

record Printer3D =
  p3_extruderRef :: "Mesh option"
  p3_printObjectRef :: "Mesh option"
  p3_printProgress :: int
  p3_lastProgressRef :: int

definition Printer3D_frame :: "bool \<Rightarrow> real \<Rightarrow> Printer3D \<Rightarrow> Printer3D" where
  "Printer3D_frame isActive time s =
     (let s = (if isActive then
                 let layer = js_rem \<lfloor>time * 0.5\<rfloor> 10 in
                 s\<lparr>p3_extruderRef := map_option
                      (\<lambda>m. m\<lparr>position := \<lparr>vec_x = sin (time * 2) * 0.15,
                                          vec_y = 0.3 - real_of_int layer * 0.02,
                                          vec_z = cos (time * 1.8) * 0.15\<rparr>\<rparr>)
                      (p3_extruderRef s)\<rparr>
               else s)
      in case p3_printObjectRef s of
           None \<Rightarrow> s
         | Some printObject \<Rightarrow>
             if \<not> isActive then s
             else
               let progress = (sin (time * 0.3) + 1) * 0.5;
                   normalizedProgress = \<lfloor>progress * 100\<rfloor>;
                   s = (if normalizedProgress \<noteq> p3_lastProgressRef s
                        then s\<lparr>p3_lastProgressRef := normalizedProgress,
                               p3_printProgress := normalizedProgress\<rparr>
                        else s)
               in s\<lparr>p3_printObjectRef := Some
                      (printObject
                         \<lparr>position := (position printObject)\<lparr>vec_y := - 0.05 + progress * 0.05\<rparr>,
                          scale := (scale printObject)\<lparr>vec_y := progress\<rparr>\<rparr>)\<rparr>)"

subsection \<open>DebrisCollectionArm\<close>

record DebrisCollectionArm =
  dc_armRef :: "Object3D option"
  dc_scannerRef :: "Mesh option"
  dc_magnetRef :: "Mesh option"
  dc_debrisRef :: "Mesh option"

definition DebrisCollectionArm_frame ::
  "bool \<Rightarrow> real \<Rightarrow> DebrisCollectionArm \<Rightarrow> DebrisCollectionArm" where
  "DebrisCollectionArm_frame isActive time s =
     (if dc_armRef s = None \<or> \<not> isActive then s
      else
        let s = s\<lparr>dc_armRef := map_option
                  (\<lambda>g. g\<lparr>rotation := (rotation g)\<lparr>vec_y := sin (time * 0.3) * 1.2\<rparr>\<rparr>)
                  (dc_armRef s)\<rparr>;
            s = s\<lparr>dc_scannerRef := applyEmissiveIntensity
                  (map_option
                     (\<lambda>m. m\<lparr>rotation := (rotation m)\<lparr>vec_z := vec_z (rotation m) + 0.05\<rparr>\<rparr>)
                     (dc_scannerRef s))
                  (0.5 + sin (time * 4) * 0.3)\<rparr>;
            s = s\<lparr>dc_magnetRef :=
                  applyEmissiveIntensity (dc_magnetRef s) (0.3 + sin (time * 2) * 0.2)\<rparr>;
            s = s\<lparr>dc_debrisRef := map_option
                  (\<lambda>m. m\<lparr>position := (position m)\<lparr>vec_y := - 0.2 + sin (time * 0.8) * 0.1\<rparr>,
                         rotation := (rotation m)\<lparr>vec_x := vec_x (rotation m) + 0.02,
                                                   vec_y := vec_y (rotation m) + 0.01\<rparr>\<rparr>)
                  (dc_debrisRef s)\<rparr>
        in s)"

text \<open>The object count of the scan panel, from \<^verbatim>\<open>Math.random()\<close> at render.\<close>

definition DebrisCollectionArm_hud :: "bool \<Rightarrow> real \<Rightarrow> int option" where
  "DebrisCollectionArm_hud isActive random =
     (if isActive then Some (\<lfloor>random * 15\<rfloor> + 5) else None)"

subsection \<open>RepairStation\<close>

datatype OperationStatus = Op_pending | Op_in_progress | Op_completed | Op_waiting_materials

datatype OperationKind = Op_repair | Op_replace | Op_upgrade

record RepairOperation =
  op_id :: string
  satelliteName :: string
  operation :: OperationKind
  component :: string
  materialsNeeded :: "(string \<times> real) list option"
  duration :: real
  progress :: real
  status :: OperationStatus

text \<open>\<^verbatim>\<open>currentOperation?.status === "in-progress"\<close>\<close>

definition in_progress :: "RepairOperation option \<Rightarrow> bool" where
  "in_progress currentOperation =
     (case currentOperation of None \<Rightarrow> False | Some op \<Rightarrow> status op = Op_in_progress)"

text \<open>
  The sparks are the children of the group \<^verbatim>\<open>sparksRef\<close> points to. For one spark
  the callback draws three values from \<^verbatim>\<open>Math.random()\<close>, and two more when the
  spark has risen above 0.5 and is put back.
\<close>

record SparkDraws =
  draw_y :: real
  draw_x :: real
  draw_z :: real
  redraw_x :: real
  redraw_z :: real

definition spark_step :: "SparkDraws \<Rightarrow> Object3D \<Rightarrow> Object3D" where
  "spark_step d spark =
     (let p = position spark;
          p = p\<lparr>vec_y := vec_y p + draw_y d * 0.02\<rparr>;
          p = p\<lparr>vec_x := vec_x p + (draw_x d - 0.5) * 0.01\<rparr>;
          p = p\<lparr>vec_z := vec_z p + (draw_z d - 0.5) * 0.01\<rparr>;
          p = (if vec_y p > 0.5
               then p\<lparr>vec_y := 0.2, vec_x := (redraw_x d - 0.5) * 0.1,
                      vec_z := (redraw_z d - 0.5) * 0.1\<rparr>
               else p)
      in spark\<lparr>position := p\<rparr>)"

record RepairStation =
  rs_toolRef :: "Mesh option"
  rs_diagnosticRef :: "Mesh option"
  rs_repairArmRef :: "Mesh option"
  rs_sparksRef :: "Object3D list option"

definition RepairStation_frame ::
  "bool \<Rightarrow> RepairOperation option \<Rightarrow> (nat \<Rightarrow> SparkDraws) \<Rightarrow> real \<Rightarrow>
     RepairStation \<Rightarrow> RepairStation" where
  "RepairStation_frame isActive currentOperation Math_random time s =
     (let s = (if isActive \<and> in_progress currentOperation then
                 s\<lparr>rs_toolRef := map_option
                      (\<lambda>m. m\<lparr>rotation := (rotation m)\<lparr>vec_z := sin (time * 3) * 0.2\<rparr>,
                             position := (position m)\<lparr>vec_y := 0.2 + sin (time * 2) * 0.03\<rparr>\<rparr>)
                      (rs_toolRef s)\<rparr>
               else s);
          s = (if isActive \<and> in_progress currentOperation then
                 s\<lparr>rs_repairArmRef := map_option
                      (\<lambda>m. m\<lparr>rotation := (rotation m)\<lparr>vec_x := sin (time * 1.5) * 0.3\<rparr>,
                             position := (position m)\<lparr>vec_z := cos (time * 1.2) * 0.05\<rparr>\<rparr>)
                      (rs_repairArmRef s)\<rparr>
               else s);
          s = (if isActive then
                 s\<lparr>rs_diagnosticRef :=
                      applyEmissiveIntensity (rs_diagnosticRef s) (0.4 + sin (time * 3) * 0.2)\<rparr>
               else s);
          s = (if in_progress currentOperation then
                 s\<lparr>rs_sparksRef := map_option
                      (\<lambda>children.
                         map (\<lambda>(i, spark). spark_step (Math_random i) spark)
                           (enumerate 0 children))
                      (rs_sparksRef s)\<rparr>
               else s)
      in s)"

subsection \<open>What a frame writes\<close>

text \<open>
  The JSX gives every animated mesh one \<^verbatim>\<open>meshStandardMaterial\<close>; \<open>standard_mesh\<close>
  says that a ref is mounted on such a mesh. A component is \<open>ready\<close> when its refs are
  mounted and, where it mirrors a progress value into React state, the state holds the
  value last mirrored (which is so at mount and after every frame). The \<open>view\<close> of a
  component collects the transforms, glow intensities and HUD value that its callback
  assigns from an expression in the elapsed time.
\<close>

definition standard_mesh :: "Mesh option \<Rightarrow> bool" where
  "standard_mesh r =
     (case r of
        None \<Rightarrow> False
      | Some m \<Rightarrow> (case material m of
                    One mat \<Rightarrow> (case mat of MeshStandardMaterial i \<Rightarrow> True | _ \<Rightarrow> False)
                  | Many ms \<Rightarrow> False))"

definition RoboticArm_ready :: "RoboticArm \<Rightarrow> bool" where
  "RoboticArm_ready s =
     (ra_armRef s \<noteq> None \<and> ra_joint1Ref s \<noteq> None \<and> ra_joint2Ref s \<noteq> None \<and>
      standard_mesh (ra_effectorRef s) \<and> ra_activityProgress s = ra_lastHudProgressRef s)"

definition RoboticArm_view ::
  "RoboticArm \<Rightarrow> real option \<times> real option \<times> real option \<times> (real \<times> MeshMaterial) option \<times> int" where
  "RoboticArm_view s =
     (map_option (\<lambda>g. vec_y (rotation g)) (ra_armRef s),
      map_option (\<lambda>m. vec_z (rotation m)) (ra_joint1Ref s),
      map_option (\<lambda>m. vec_x (rotation m)) (ra_joint2Ref s),
      map_option (\<lambda>m. (vec_x (scale m), material m)) (ra_effectorRef s),
      ra_activityProgress s)"

definition Furnace_ready :: "Furnace \<Rightarrow> bool" where
  "Furnace_ready s =
     (standard_mesh (f_glowRef s) \<and> standard_mesh (f_processingRef s) \<and> f_outputRef s \<noteq> None)"

definition Furnace_view ::
  "Furnace \<Rightarrow> (Vector3 \<times> MeshMaterial) option \<times> MeshMaterial option \<times> real option" where
  "Furnace_view s =
     (map_option (\<lambda>m. (scale m, material m)) (f_glowRef s),
      map_option material (f_processingRef s),
      map_option (\<lambda>m. vec_y (position m)) (f_outputRef s))"

definition Printer3D_ready :: "Printer3D \<Rightarrow> bool" where
  "Printer3D_ready s =
     (p3_extruderRef s \<noteq> None \<and> p3_printObjectRef s \<noteq> None \<and>
      p3_printProgress s = p3_lastProgressRef s)"

definition Printer3D_view ::
  "Printer3D \<Rightarrow> Vector3 option \<times> (real \<times> real) option \<times> int" where
  "Printer3D_view s =
     (map_option position (p3_extruderRef s),
      map_option (\<lambda>m. (vec_y (position m), vec_y (scale m))) (p3_printObjectRef s),
      p3_printProgress s)"

definition DebrisCollectionArm_ready :: "DebrisCollectionArm \<Rightarrow> bool" where
  "DebrisCollectionArm_ready s =
     (dc_armRef s \<noteq> None \<and> standard_mesh (dc_scannerRef s) \<and>
      standard_mesh (dc_magnetRef s) \<and> dc_debrisRef s \<noteq> None)"

definition DebrisCollectionArm_view ::
  "DebrisCollectionArm \<Rightarrow> real option \<times> MeshMaterial option \<times> MeshMaterial option \<times> real option" where
  "DebrisCollectionArm_view s =
     (map_option (\<lambda>g. vec_y (rotation g)) (dc_armRef s),
      map_option material (dc_scannerRef s),
      map_option material (dc_magnetRef s),
      map_option (\<lambda>m. vec_y (position m)) (dc_debrisRef s))"

definition RepairStation_ready :: "RepairStation \<Rightarrow> bool" where
  "RepairStation_ready s =
     (rs_toolRef s \<noteq> None \<and> rs_repairArmRef s \<noteq> None \<and> standard_mesh (rs_diagnosticRef s))"

definition RepairStation_view ::
  "RepairStation \<Rightarrow> (real \<times> real) option \<times> (real \<times> real) option \<times> MeshMaterial option" where
  "RepairStation_view s =
     (map_option (\<lambda>m. (vec_z (rotation m), vec_y (position m))) (rs_toolRef s),
      map_option (\<lambda>m. (vec_x (rotation m), vec_z (position m))) (rs_repairArmRef s),
      map_option material (rs_diagnosticRef s))"

text \<open>
  Two meshes as the JSX mounts them and as they might be after some frames, and the
  components built from them.
\<close>

definition fresh_mesh :: Mesh where
  "fresh_mesh =
     \<lparr>position = \<lparr>vec_x = 0, vec_y = 0, vec_z = 0\<rparr>,
      rotation = \<lparr>vec_x = 0, vec_y = 0, vec_z = 0\<rparr>,
      scale = \<lparr>vec_x = 1, vec_y = 1, vec_z = 1\<rparr>,
      material = One (MeshStandardMaterial 0)\<rparr>"

definition moved_mesh :: Mesh where
  "moved_mesh =
     \<lparr>position = \<lparr>vec_x = 1, vec_y = 2, vec_z = 3\<rparr>,
      rotation = \<lparr>vec_x = 4, vec_y = 5, vec_z = 6\<rparr>,
      scale = \<lparr>vec_x = 7, vec_y = 8, vec_z = 9\<rparr>,
      material = One (MeshStandardMaterial 1)\<rparr>"

definition group_of :: "Mesh \<Rightarrow> Object3D" where
  "group_of m = \<lparr>position = position m, rotation = rotation m, scale = scale m\<rparr>"

definition arm_at :: "Mesh \<Rightarrow> int \<Rightarrow> RoboticArm" where
  "arm_at m n =
     \<lparr>ra_armRef = Some (group_of m), ra_joint1Ref = Some m, ra_joint2Ref = Some m,
      ra_effectorRef = Some m, ra_animationPhaseRef = 1,
      ra_activityProgress = n, ra_lastHudProgressRef = n\<rparr>"

definition furnace_at :: "Mesh \<Rightarrow> Furnace" where
  "furnace_at m = \<lparr>f_glowRef = Some m, f_processingRef = Some m, f_outputRef = Some m\<rparr>"

definition printer_at :: "Mesh \<Rightarrow> int \<Rightarrow> Printer3D" where
  "printer_at m n =
     \<lparr>p3_extruderRef = Some m, p3_printObjectRef = Some m,
      p3_printProgress = n, p3_lastProgressRef = n\<rparr>"

definition collector_at :: "Mesh \<Rightarrow> DebrisCollectionArm" where
  "collector_at m =
     \<lparr>dc_armRef = Some (group_of m), dc_scannerRef = Some m, dc_magnetRef = Some m,
      dc_debrisRef = Some m\<rparr>"

definition station_at :: "Mesh \<Rightarrow> RepairStation" where
  "station_at m =
     \<lparr>rs_toolRef = Some m, rs_diagnosticRef = Some m, rs_repairArmRef = Some m,
      rs_sparksRef = Some [group_of m]\<rparr>"

definition demo_operation :: RepairOperation where
  "demo_operation =
     \<lparr>op_id = ''op-1'', satelliteName = ''Hermes-7'', operation = Op_repair,
      component = ''solar panel'', materialsNeeded = None, duration = 120, progress = 40,
      status = Op_in_progress\<rparr>"

section \<open>Concrete inputs\<close>

text \<open>
  Inputs at which the definitions are evaluated below. \<open>demo_ethers\<close> stands in for
  the library with operations of the same shape and none of its cryptography: the
  address of a key is \<^verbatim>\<open>0x\<close> and the first forty digits of the key, a signature is
  the signer's address followed by the message, verification throws on a signature
  shorter than an address and recovers the zero address from a signature over another
  message, and the wallet constructor accepts \<^verbatim>\<open>0x\<close> followed by sixty-four
  hexadecimal digits and throws on anything else.
\<close>

definition demo_computeAddress :: "string \<Rightarrow> string" where
  "demo_computeAddress key = ''0x'' @ take 40 (drop 2 key)"

definition demo_is_privateKey :: "string \<Rightarrow> bool" where
  "demo_is_privateKey key =
     (length key = 66 \<and> take 2 key = ''0x'' \<and>
      list_all (\<lambda>c. c \<in> set ''0123456789abcdefABCDEF'') (drop 2 key))"

definition demo_ethers :: ethers where
  "demo_ethers =
     \<lparr>verifyMessage = (\<lambda>message sig.
        if length sig < 42 then Inl (Error ''invalid signature'')
        else if drop 42 sig = message then Inr (take 42 sig)
        else Inr ''0x0000000000000000000000000000000000000000''),
      signMessage = (\<lambda>key message. demo_computeAddress key @ message),
      computeAddress = demo_computeAddress,
      ethers_id = (\<lambda>s. ''0x'' @ s),
      new_Wallet = (\<lambda>key.
        if demo_is_privateKey key
        then Inr \<lparr>privateKey = key, address = demo_computeAddress key\<rparr>
        else Inl (TypeError ''invalid private key''))\<rparr>"

definition demo_key :: string where
  "demo_key = ''0xAb5801a7D398351b8bE11C439e05C5B3259aeC9B0000000000000000000000ff''"

definition demo_wallet :: Wallet where
  "demo_wallet = \<lparr>privateKey = demo_key, address = demo_computeAddress demo_key\<rparr>"

definition demo_runtime :: runtime where
  "demo_runtime =
     \<lparr>JSON_stringify = (\<lambda>payload. ''{from:'' @ p_from payload @ '',to:'' @ p_to payload @ ''}''),
      Math_random_id = ''k3x9q2ab'',
      Date_now = 1700000000000\<rparr>"

text \<open>
  A transfer declared by the holder of \<open>demo_key\<close> (the address in lower case), once
  signed with that key and once carrying a signature too short to be one.
\<close>

definition demo_payload :: TxPayload where
  "demo_payload =
     \<lparr>p_type = power_transfer, p_data = [(''powerAmount'', MNumber 5)],
      p_from = ''0xab5801a7d398351b8be11c439e05c5b3259aec9b'', p_to = ''0x00'',
      p_timestamp = 1700000000000\<rparr>"

definition demo_txData :: TxData where
  "demo_txData =
     TxPayload.extend demo_payload
       (TxData.fields (signMessage demo_ethers demo_key (JSON_stringify demo_runtime demo_payload)))"

definition forged_txData :: TxData where
  "forged_txData = TxPayload.extend demo_payload (TxData.fields ''0xdeadbeef'')"

definition initial_world :: world where
  "initial_world = \<lparr>client = new_BlockchainClient None, network = []\<rparr>"

text \<open>
  Two blocks that do not chain: the second names a predecessor hash that is not the
  first block's, and neither Merkle root nor nonce means anything.
\<close>

definition block_1 :: Block where
  "block_1 =
     \<lparr>height = 1, hash = ''0xaaa'', timestamp = ''2024-01-01T00:00:00Z'',
      previousHash = ''0x000'', merkleRoot = ''0x111'', transactions = [''tx_1''],
      validator = ''v1'', gasUsed = 21000, gasLimit = 30000, difficulty = 1, nonce = 0,
      size_bytes = 512\<rparr>"

definition block_2 :: Block where
  "block_2 =
     \<lparr>height = 7, hash = ''0xbbb'', timestamp = ''2023-01-01T00:00:00Z'',
      previousHash = ''0xnot-the-hash-of-block-1'', merkleRoot = [], transactions = [],
      validator = ''v2'', gasUsed = 0, gasLimit = 0, difficulty = 0, nonce = - 1,
      size_bytes = 0\<rparr>"

definition unchained_blocks_server :: "(BlockData, int option) envelope server" where
  "unchained_blocks_server =
     (\<lambda>req. Inr \<lparr>ok = True,
                   json = Inr \<lparr>success = True, data = ManyBlocks [block_1, block_2],
                               total = Some 2, error = None\<rparr>\<rparr>)"

text \<open>
  A service that answers with a failing status line (\<^verbatim>\<open>ok\<close> is false) and a body
  whose \<^verbatim>\<open>success\<close> flag is set, and one that answers with a failing status line and
  a body that reports the failure.
\<close>

definition failed_status_server :: "('d list, int) envelope server" where
  "failed_status_server =
     (\<lambda>req. Inr \<lparr>ok = False,
                   json = Inr \<lparr>success = True, data = [], total = 0, error = None\<rparr>\<rparr>)"

definition failing_server :: "'d \<Rightarrow> 't \<Rightarrow> ('d, 't) envelope server" where
  "failing_server d t =
     (\<lambda>req. Inr \<lparr>ok = False,
                   json = Inr \<lparr>success = False, data = d, total = t,
                               error = Some ''Internal error''\<rparr>\<rparr>)"

text \<open>The signed transfer with its recipient changed after signing.\<close>

definition tampered_txData :: TxData where
  "tampered_txData = demo_txData\<lparr>p_to := ''0x99''\<rparr>"

text \<open>Browser storage holding, under the wallet's key, a value that is no private key.\<close>

definition stale_storage :: localStorage where
  "stale_storage = [''orbital-privateKey'' \<mapsto> ''not-a-key'']"

text \<open>
  A transfer of power declared by the holder of the private key \<open>sender_key\<close>, whose
  address is \<open>sender_address\<close>; the payload names the sender in lower case. The three
  strings are \<^verbatim>\<open>JSON.stringify(payload)\<close> when \<^verbatim>\<open>txData\<close> was written in the order
  of its type declaration (\<^verbatim>\<open>type\<close>, \<^verbatim>\<open>data\<close>, \<^verbatim>\<open>from\<close>, \<^verbatim>\<open>to\<close>,
  \<^verbatim>\<open>timestamp\<close>), the canonical serialisation of the same payload, and
  \<^verbatim>\<open>JSON.stringify(payload)\<close> when \<^verbatim>\<open>txData\<close> was written with \<^verbatim>\<open>from\<close> and
  \<^verbatim>\<open>to\<close> first.
\<close>

definition sender_key :: string where
  "sender_key = ''0xac0974bec39a17e36ba4a6b4d238ff944bacb478cbed5efcae784d7bf4f2ff80''"

definition sender_address :: string where
  "sender_address = ''0xf39Fd6e51aad88F6F4ce6aB8827279cffFb92266''"

definition transfer_payload :: TxPayload where
  "transfer_payload =
     \<lparr>p_type = power_transfer,
      p_data = [(''target'', MString ''sat-7''), (''powerAmount'', MNumber 5)],
      p_from = ''0xf39fd6e51aad88f6f4ce6ab8827279cfffb92266'',
      p_to = ''0x70997970C51812dc3A010C7d01b50e0d17dc79C8'',
      p_timestamp = 1700000000000\<rparr>"

definition declared_order :: "string list" where
  "declared_order = [''type'', ''data'', ''from'', ''to'', ''timestamp'']"

definition from_first_order :: "string list" where
  "from_first_order = [''from'', ''to'', ''type'', ''data'', ''timestamp'']"

definition transfer_json_declared :: string where
  \<open>transfer_json_declared =
     ''{"type":"power_transfer","data":{"target":"sat-7","powerAmount":5},"from":"0xf39fd6e51aad88f6f4ce6ab8827279cfffb92266","to":"0x70997970C51812dc3A010C7d01b50e0d17dc79C8","timestamp":1700000000000}''\<close>

definition transfer_json_canonical :: string where
  \<open>transfer_json_canonical =
     ''{"data":{"powerAmount":5,"target":"sat-7"},"from":"0xf39fd6e51aad88f6f4ce6ab8827279cfffb92266","timestamp":1700000000000,"to":"0x70997970C51812dc3A010C7d01b50e0d17dc79C8","type":"power_transfer"}''\<close>

definition transfer_json_from_first :: string where
  \<open>transfer_json_from_first =
     ''{"from":"0xf39fd6e51aad88f6f4ce6ab8827279cfffb92266","to":"0x70997970C51812dc3A010C7d01b50e0d17dc79C8","type":"power_transfer","data":{"target":"sat-7","powerAmount":5},"timestamp":1700000000000}''\<close>

text \<open>
  The signatures \<^verbatim>\<open>new ethers.Wallet(sender_key).signMessage(message)\<close> of the first
  two strings.
\<close>

definition signature_declared :: string where
  "signature_declared =
     ''0xaefce8b250f731c5a575dd8ce0252e6340873544e20e60603559b1bb9e81df8b3f572f6145a593ab414d382abeed0339e216b70ca237dfa0d654d8e34a453b931b''"

definition signature_canonical :: string where
  "signature_canonical =
     ''0xb90c5e2b224c4a0ea8e47d1ce8fcd3e750c54e98e72af56b47d9951fe629dae2082dc28e86a31e9f0227ed86cce853755d8bfc52d8b63113055a8964d856dd371c''"

text \<open>
  \<open>recorded_ethers\<close> holds the values of the library at these inputs, and no others:
  what \<^verbatim>\<open>signMessage\<close> returns for the key on the two signed strings, and the address
  \<^verbatim>\<open>ethers.verifyMessage\<close> recovers from each signature over the string it signs and
  over a string it does not sign.
\<close>

definition recorded_ethers :: ethers where
  "recorded_ethers =
     \<lparr>verifyMessage = (\<lambda>message sig.
        if message = transfer_json_declared \<and> sig = signature_declared
        then Inr sender_address
        else if message = transfer_json_canonical \<and> sig = signature_canonical
        then Inr sender_address
        else if message = transfer_json_declared \<and> sig = signature_canonical
        then Inr ''0x114ED7488a86519e49a62b4574963AA89D28190c''
        else if message = transfer_json_from_first \<and> sig = signature_declared
        then Inr ''0x5b291f0175F5BFC56d6Dad54C5377F1b1D03c4d0''
        else Inl (Error ''not recorded'')),
      signMessage = (\<lambda>key message.
        if key = sender_key \<and> message = transfer_json_declared then signature_declared
        else if key = sender_key \<and> message = transfer_json_canonical then signature_canonical
        else []),
      computeAddress = (\<lambda>key. if key = sender_key then sender_address else []),
      ethers_id = (\<lambda>s. []),
      new_Wallet = (\<lambda>key.
        if key = sender_key then Inr \<lparr>privateKey = sender_key, address = sender_address\<rparr>
        else Inl (TypeError ''not recorded''))\<rparr>"

text \<open>
  The transfer submitted with the signature over the string the call serialises, and
  with the signature over its canonical serialisation; and the runtime of a call whose
  \<^verbatim>\<open>txData\<close> was written in a given order.
\<close>

definition signed_transfer :: TxData where
  "signed_transfer = TxPayload.extend transfer_payload (TxData.fields signature_declared)"

definition canonically_signed_transfer :: TxData where
  "canonically_signed_transfer =
     TxPayload.extend transfer_payload (TxData.fields signature_canonical)"

definition runtime_of_order :: "string list \<Rightarrow> runtime" where
  "runtime_of_order order =
     \<lparr>JSON_stringify = JSON_stringify_ordered order,
      Math_random_id = ''k3x9q2ab'',
      Date_now = 1700000000123\<rparr>"

text \<open>The same service with the \<^verbatim>\<open>ok\<close> flag of every response set to \<open>b\<close>.\<close>

definition with_status :: "bool \<Rightarrow> 'b server \<Rightarrow> 'b server" where
  "with_status b srv =
     (\<lambda>req. case srv req of Inl e \<Rightarrow> Inl e | Inr response \<Rightarrow> Inr (response\<lparr>ok := b\<rparr>))"

text \<open>A debris service that answers every request with a failing status line.\<close>

definition nasa_down :: "unit server" where
  "nasa_down = (\<lambda>req. Inr \<lparr>ok = False, json = Inr ()\<rparr>)"

section \<open>Properties of the request methods\<close>

lemma keys_URLSearchParams_set:
  "fst ` set (URLSearchParams_set sp name v) = insert name (fst ` set sp)"
  by (induction sp name v rule: URLSearchParams_set.induct) (auto simp: image_iff)

lemma keys_set_if_number:
  "fst ` set (set_if_number sp name v) \<subseteq> insert name (fst ` set sp)"
  by (auto simp: set_if_number_def keys_URLSearchParams_set split: option.splits)

lemma keys_set_if_string:
  "fst ` set (set_if_string sp name v) \<subseteq> insert name (fst ` set sp)"
  by (auto simp: set_if_string_def keys_URLSearchParams_set split: option.splits)

lemma set_if_number_zero: "set_if_number sp name (Some 0) = sp"
  by (simp add: set_if_number_def)

lemma set_if_number_None: "set_if_number sp name None = sp"
  by (simp add: set_if_number_def)

text \<open>
  Claim C9. \<^verbatim>\<open>NASADebrisClient.getDebrisData\<close> ignores the \<^verbatim>\<open>size\<close> and
  \<^verbatim>\<open>type\<close> filters: whatever they are set to, the request is the one issued without
  the change; the query string has no entry other than \<^verbatim>\<open>limit\<close>,
  \<^verbatim>\<open>altitudeMin\<close> and \<^verbatim>\<open>altitudeMax\<close>; and that request is the one the call
  puts on the network.
\<close>

theorem getDebrisData_ignores_size_and_type:
  "getDebrisData_request (Some (p\<lparr>dp_size := s, dp_type := t\<rparr>)) = getDebrisData_request (Some p)
   \<and> fst ` set (getDebrisData_searchParams params) \<subseteq> {''limit'', ''altitudeMin'', ''altitudeMax''}
   \<and> network (snd (getDebrisData srv params w)) = network w @ [getDebrisData_request params]"
proof (intro conjI)
  show "getDebrisData_request (Some (p\<lparr>dp_size := s, dp_type := t\<rparr>)) = getDebrisData_request (Some p)"
    by (simp add: getDebrisData_request_def getDebrisData_searchParams_def opt_chain_def)
  show "fst ` set (getDebrisData_searchParams params) \<subseteq> {''limit'', ''altitudeMin'', ''altitudeMax''}"
    using keys_set_if_number [of "[]" "''limit''" "opt_chain params dp_limit"]
    by (auto simp: getDebrisData_searchParams_def Let_def keys_URLSearchParams_set
             split: option.splits)
  show "network (snd (getDebrisData srv params w)) = network w @ [getDebrisData_request params]"
    by (simp add: getDebrisData_def fetch_def split: sum.splits)
qed

lemma key_not_in_set_if_string:
  "name \<noteq> k \<Longrightarrow> k \<notin> fst ` set sp \<Longrightarrow> k \<notin> fst ` set (set_if_string sp name v)"
  using keys_set_if_string [of sp name v] by auto

text \<open>
  Claim C10. A request parameter equal to 0 is dropped: with \<^verbatim>\<open>limit: 0\<close> the
  request of \<^verbatim>\<open>getDebrisData\<close>, of \<^verbatim>\<open>getTransactions\<close> and of
  \<^verbatim>\<open>getBlocks\<close> is the request issued with no limit at all and its query has no
  \<^verbatim>\<open>limit\<close> entry, and likewise for \<^verbatim>\<open>height: 0\<close> in \<^verbatim>\<open>getBlocks\<close>.
\<close>

theorem zero_parameters_dropped:
  "getDebrisData_request (Some (dp\<lparr>dp_limit := Some 0\<rparr>)) = getDebrisData_request (Some (dp\<lparr>dp_limit := None\<rparr>))
   \<and> ''limit'' \<notin> fst ` set (getDebrisData_searchParams (Some (dp\<lparr>dp_limit := Some 0\<rparr>)))
   \<and> getTransactions_request this (Some (tp\<lparr>tp_limit := Some 0\<rparr>)) = getTransactions_request this (Some (tp\<lparr>tp_limit := None\<rparr>))
   \<and> ''limit'' \<notin> fst ` set (getTransactions_searchParams (Some (tp\<lparr>tp_limit := Some 0\<rparr>)))
   \<and> getBlocks_request this (Some (bp\<lparr>bp_limit := Some 0\<rparr>)) = getBlocks_request this (Some (bp\<lparr>bp_limit := None\<rparr>))
   \<and> ''limit'' \<notin> fst ` set (getBlocks_searchParams (Some (bp\<lparr>bp_limit := Some 0\<rparr>)))
   \<and> getBlocks_request this (Some (bp\<lparr>bp_height := Some 0\<rparr>)) = getBlocks_request this (Some (bp\<lparr>bp_height := None\<rparr>))
   \<and> ''height'' \<notin> fst ` set (getBlocks_searchParams (Some (bp\<lparr>bp_height := Some 0\<rparr>)))"
proof (intro conjI)
  show "getDebrisData_request (Some (dp\<lparr>dp_limit := Some 0\<rparr>)) = getDebrisData_request (Some (dp\<lparr>dp_limit := None\<rparr>))"
    by (simp add: getDebrisData_request_def getDebrisData_searchParams_def opt_chain_def
                  set_if_number_zero set_if_number_None)
  show "''limit'' \<notin> fst ` set (getDebrisData_searchParams (Some (dp\<lparr>dp_limit := Some 0\<rparr>)))"
    by (auto simp: getDebrisData_searchParams_def opt_chain_def set_if_number_zero
                  keys_URLSearchParams_set split: option.splits)
  show "getTransactions_request this (Some (tp\<lparr>tp_limit := Some 0\<rparr>)) = getTransactions_request this (Some (tp\<lparr>tp_limit := None\<rparr>))"
    by (simp add: getTransactions_request_def getTransactions_searchParams_def opt_chain_def
                  set_if_number_zero set_if_number_None)
  show "''limit'' \<notin> fst ` set (getTransactions_searchParams (Some (tp\<lparr>tp_limit := Some 0\<rparr>)))"
    by (simp add: getTransactions_searchParams_def opt_chain_def set_if_number_zero
                  key_not_in_set_if_string)
  show "getBlocks_request this (Some (bp\<lparr>bp_limit := Some 0\<rparr>)) = getBlocks_request this (Some (bp\<lparr>bp_limit := None\<rparr>))"
    by (simp add: getBlocks_request_def getBlocks_searchParams_def opt_chain_def
                  set_if_number_zero set_if_number_None)
  show "''limit'' \<notin> fst ` set (getBlocks_searchParams (Some (bp\<lparr>bp_limit := Some 0\<rparr>)))"
    using keys_set_if_number [of "[]" "''height''" "bp_height bp"]
    by (auto simp: getBlocks_searchParams_def opt_chain_def set_if_number_zero)
  show "getBlocks_request this (Some (bp\<lparr>bp_height := Some 0\<rparr>)) = getBlocks_request this (Some (bp\<lparr>bp_height := None\<rparr>))"
    by (simp add: getBlocks_request_def getBlocks_searchParams_def opt_chain_def
                  set_if_number_zero set_if_number_None)
  show "''height'' \<notin> fst ` set (getBlocks_searchParams (Some (bp\<lparr>bp_height := Some 0\<rparr>)))"
    using keys_set_if_number [of "[]" "''limit''" "bp_limit bp"]
    by (auto simp: getBlocks_searchParams_def opt_chain_def set_if_number_zero)
qed

text \<open>
  Claim C6. For a response whose body has \<^verbatim>\<open>success: true\<close>,
  \<^verbatim>\<open>getBlocks\<close> returns the \<^verbatim>\<open>data\<close> and \<^verbatim>\<open>total\<close> of the body as they
  are, whatever the blocks contain: nothing about \<^verbatim>\<open>previousHash\<close>,
  \<^verbatim>\<open>merkleRoot\<close> or \<^verbatim>\<open>nonce\<close> is checked.
\<close>

theorem getBlocks_returns_data_unchanged:
  assumes "srv (getBlocks_request (client w) params) = Inr response"
      and "json response = Inr result"
      and "success result"
  shows "fst (getBlocks srv params w) = Inr \<lparr>l_data = data result, l_total = total result\<rparr>"
  using assms by (simp add: getBlocks_def fetch_def)

text \<open>
  At a service that answers with two blocks that do not chain, the blocks come back
  unchanged.
\<close>

theorem getBlocks_returns_data_unchanged_witness:
  "fst (getBlocks unchained_blocks_server None initial_world)
     = Inr \<lparr>l_data = ManyBlocks [block_1, block_2], l_total = Some 2\<rparr>
   \<and> previousHash block_2 \<noteq> hash block_1"
  using getBlocks_returns_data_unchanged
          [of unchained_blocks_server initial_world None
              "\<lparr>ok = True, json = Inr \<lparr>success = True, data = ManyBlocks [block_1, block_2], total = Some 2, error = None\<rparr>\<rparr>"
              "\<lparr>success = True, data = ManyBlocks [block_1, block_2], total = Some 2, error = None\<rparr>"]
  by (simp add: unchained_blocks_server_def block_1_def block_2_def)



text \<open>
  Claim C4, as stated, fails for the methods of \<^verbatim>\<open>BlockchainClient\<close>: they never
  look at the status of the response. A response with a failing status line whose body
  says \<^verbatim>\<open>success: true\<close> is returned as a result, not thrown.
\<close>

theorem getTransactions_ignores_failed_status:
  "failed_status_server (getTransactions_request (client initial_world) None)
     = Inr \<lparr>ok = False, json = Inr \<lparr>success = True, data = [], total = 0, error = None\<rparr>\<rparr>
   \<and> fst (getTransactions failed_status_server None initial_world)
     = Inr \<lparr>l_data = [], l_total = 0\<rparr>"
  by (simp add: getTransactions_def fetch_def failed_status_server_def)

text \<open>
  Claim C4, amended. \<^verbatim>\<open>getDebrisData\<close> and \<^verbatim>\<open>getDebrisStatistics\<close> throw when
  the response is not \<^verbatim>\<open>ok\<close>. Each request method of \<^verbatim>\<open>BlockchainClient\<close>
  throws, with the body's \<^verbatim>\<open>error\<close> as message, when the parsed body of the response
  has \<^verbatim>\<open>success\<close> false, and what it does is the same whatever the \<^verbatim>\<open>ok\<close>
  flag of the response.
\<close>

theorem errors_surface_by_throwing:
  "(srvA (getDebrisData_request dparams) = Inr rA \<and> \<not> ok rA \<longrightarrow>
      fst (getDebrisData srvA dparams w) = Inl (Error ''Failed to fetch debris data''))
   \<and> (srvB (GET_request ''/api/nasa/statistics'') = Inr rB \<and> \<not> ok rB \<longrightarrow>
      fst (getDebrisStatistics srvB w) = Inl (Error ''Failed to fetch debris statistics''))
   \<and> (srvC (getTransactions_request (client w) tparams) = Inr rC \<and> json rC = Inr eC \<and> \<not> success eC \<longrightarrow>
      fst (getTransactions srvC tparams w) = Inl (new_Error (error eC)))
   \<and> (srvD (getBlocks_request (client w) bparams) = Inr rD \<and> json rD = Inr eD \<and> \<not> success eD \<longrightarrow>
      fst (getBlocks srvD bparams w) = Inl (new_Error (error eD)))
   \<and> (srvE (getSmartContracts_request (client w) cparams) = Inr rE \<and> json rE = Inr eE \<and> \<not> success eE \<longrightarrow>
      fst (getSmartContracts srvE cparams w) = Inl (new_Error (error eE)))
   \<and> (srvF (executeContract_request js (client w) eparams) = Inr rF \<and> json rF = Inr eF \<and> \<not> success eF \<longrightarrow>
      fst (executeContract js srvF eparams w) = Inl (new_Error (error eF)))
   \<and> (srvG (getAnalytics_request (client w) timeframe) = Inr rG \<and> json rG = Inr eG \<and> \<not> success eG \<longrightarrow>
      fst (getAnalytics srvG timeframe w) = Inl (new_Error (error eG)))
   \<and> getTransactions (with_status b srvC) tparams w = getTransactions srvC tparams w
   \<and> getBlocks (with_status b srvD) bparams w = getBlocks srvD bparams w
   \<and> getSmartContracts (with_status b srvE) cparams w = getSmartContracts srvE cparams w
   \<and> executeContract js (with_status b srvF) eparams w = executeContract js srvF eparams w
   \<and> getAnalytics (with_status b srvG) timeframe w = getAnalytics srvG timeframe w"
proof (intro conjI impI)
  show "fst (getDebrisData srvA dparams w) = Inl (Error ''Failed to fetch debris data'')"
    if "srvA (getDebrisData_request dparams) = Inr rA \<and> \<not> ok rA"
    using that by (simp add: getDebrisData_def fetch_def)
  show "fst (getDebrisStatistics srvB w) = Inl (Error ''Failed to fetch debris statistics'')"
    if "srvB (GET_request ''/api/nasa/statistics'') = Inr rB \<and> \<not> ok rB"
    using that by (simp add: getDebrisStatistics_def fetch_def)
  show "fst (getTransactions srvC tparams w) = Inl (new_Error (error eC))"
    if "srvC (getTransactions_request (client w) tparams) = Inr rC \<and> json rC = Inr eC \<and> \<not> success eC"
    using that by (simp add: getTransactions_def fetch_def)
  show "fst (getBlocks srvD bparams w) = Inl (new_Error (error eD))"
    if "srvD (getBlocks_request (client w) bparams) = Inr rD \<and> json rD = Inr eD \<and> \<not> success eD"
    using that by (simp add: getBlocks_def fetch_def)
  show "fst (getSmartContracts srvE cparams w) = Inl (new_Error (error eE))"
    if "srvE (getSmartContracts_request (client w) cparams) = Inr rE \<and> json rE = Inr eE \<and> \<not> success eE"
    using that by (simp add: getSmartContracts_def fetch_def)
  show "fst (executeContract js srvF eparams w) = Inl (new_Error (error eF))"
    if "srvF (executeContract_request js (client w) eparams) = Inr rF \<and> json rF = Inr eF \<and> \<not> success eF"
    using that by (simp add: executeContract_def fetch_def)
  show "fst (getAnalytics srvG timeframe w) = Inl (new_Error (error eG))"
    if "srvG (getAnalytics_request (client w) timeframe) = Inr rG \<and> json rG = Inr eG \<and> \<not> success eG"
    using that by (simp add: getAnalytics_def fetch_def)
  show "getTransactions (with_status b srvC) tparams w = getTransactions srvC tparams w"
    by (simp add: getTransactions_def fetch_def with_status_def split: sum.splits)
  show "getBlocks (with_status b srvD) bparams w = getBlocks srvD bparams w"
    by (simp add: getBlocks_def fetch_def with_status_def split: sum.splits)
  show "getSmartContracts (with_status b srvE) cparams w = getSmartContracts srvE cparams w"
    by (simp add: getSmartContracts_def fetch_def with_status_def split: sum.splits)
  show "executeContract js (with_status b srvF) eparams w = executeContract js srvF eparams w"
    by (simp add: executeContract_def fetch_def with_status_def split: sum.splits)
  show "getAnalytics (with_status b srvG) timeframe w = getAnalytics srvG timeframe w"
    by (simp add: getAnalytics_def fetch_def with_status_def split: sum.splits)
qed

theorem errors_surface_by_throwing_witness:
  "fst (getDebrisData nasa_down None initial_world) = Inl (Error ''Failed to fetch debris data'')
   \<and> fst (getDebrisStatistics nasa_down initial_world) = Inl (Error ''Failed to fetch debris statistics'')
   \<and> fst (getTransactions (failing_server [] 0) None initial_world) = Inl (Error ''Internal error'')
   \<and> fst (getBlocks (failing_server (ManyBlocks []) None) None initial_world) = Inl (Error ''Internal error'')
   \<and> fst (getSmartContracts (failing_server () None) None initial_world) = Inl (Error ''Internal error'')
   \<and> fst (executeContract (\<lambda>p. ''{}'') (failing_server () ()) () initial_world) = Inl (Error ''Internal error'')
   \<and> fst (getAnalytics (failing_server () ()) None initial_world) = Inl (Error ''Internal error'')"
  using errors_surface_by_throwing
    [where srvA = nasa_down and dparams = None and w = initial_world
       and rA = "\<lparr>ok = False, json = Inr ()\<rparr>"
       and srvB = nasa_down and rB = "\<lparr>ok = False, json = Inr ()\<rparr>"
       and srvC = "failing_server [] 0" and tparams = None
       and rC = "\<lparr>ok = False, json = Inr \<lparr>success = False, data = [], total = 0, error = Some ''Internal error''\<rparr>\<rparr>"
       and eC = "\<lparr>success = False, data = [], total = 0, error = Some ''Internal error''\<rparr>"
       and srvD = "failing_server (ManyBlocks []) None" and bparams = None
       and rD = "\<lparr>ok = False, json = Inr \<lparr>success = False, data = ManyBlocks [], total = None, error = Some ''Internal error''\<rparr>\<rparr>"
       and eD = "\<lparr>success = False, data = ManyBlocks [], total = None, error = Some ''Internal error''\<rparr>"
       and srvE = "failing_server () None" and cparams = None
       and rE = "\<lparr>ok = False, json = Inr \<lparr>success = False, data = (), total = None, error = Some ''Internal error''\<rparr>\<rparr>"
       and eE = "\<lparr>success = False, data = (), total = None, error = Some ''Internal error''\<rparr>"
       and js = "\<lambda>p. ''{}''" and srvF = "failing_server () ()" and eparams = "()"
       and rF = "\<lparr>ok = False, json = Inr \<lparr>success = False, data = (), total = (), error = Some ''Internal error''\<rparr>\<rparr>"
       and eF = "\<lparr>success = False, data = (), total = (), error = Some ''Internal error''\<rparr>"
       and srvG = "failing_server () ()" and timeframe = None
       and rG = "\<lparr>ok = False, json = Inr \<lparr>success = False, data = (), total = (), error = Some ''Internal error''\<rparr>\<rparr>"
       and eG = "\<lparr>success = False, data = (), total = (), error = Some ''Internal error''\<rparr>"]
  by (simp add: nasa_down_def failing_server_def new_Error_def)

section \<open>Properties of createTransaction\<close>

lemma toLowerCase_demo_address:
  "toLowerCase (demo_computeAddress demo_key) = ''0xab5801a7d398351b8be11c439e05c5b3259aec9b''"
  by (simp add: toLowerCase_def lower_char_def demo_computeAddress_def demo_key_def)

lemma toLowerCase_demo_from:
  "toLowerCase (p_from demo_payload) = ''0xab5801a7d398351b8be11c439e05c5b3259aec9b''"
  by (simp add: toLowerCase_def lower_char_def demo_payload_def)

lemma truncate_demo_txData: "TxPayload.truncate demo_txData = demo_payload"
  by (simp add: demo_txData_def TxPayload.truncate_def TxPayload.extend_def demo_payload_def)

lemma signature_demo_txData:
  "signature demo_txData = signMessage demo_ethers demo_key (JSON_stringify demo_runtime demo_payload)"
  by (simp add: demo_txData_def TxPayload.extend_def TxData.fields_def)

lemma signature_forged_txData: "signature forged_txData = ''0xdeadbeef''"
  by (simp add: forged_txData_def TxPayload.extend_def TxData.fields_def)

lemma p_from_truncate: "p_from (TxPayload.truncate txData) = p_from txData"
  by (simp add: TxPayload.truncate_def)

lemma demo_verify_sign:
  "verifyMessage demo_ethers m (signMessage demo_ethers key m) = Inr (computeAddress demo_ethers key)"
  if "length key \<ge> 42"
  using that by (simp add: demo_ethers_def demo_computeAddress_def)

text \<open>
  Claim C1. \<^verbatim>\<open>createTransaction\<close> serialises the payload (\<^verbatim>\<open>txData\<close> without its
  signature) and recovers a signer address from the signature over that message.
  Whenever the recovery throws, or the recovered address differs from the declared
  \<^verbatim>\<open>from\<close> after both are put in lower case, the call throws
  \<^verbatim>\<open>Error("Invalid signature.")\<close> and leaves the state as it was.
\<close>

theorem createTransaction_rejects_bad_signature:
  assumes "case verifyMessage lib (JSON_stringify rt (TxPayload.truncate txData)) (signature txData) of
             Inl e \<Rightarrow> True
           | Inr signerAddress \<Rightarrow> toLowerCase signerAddress \<noteq> toLowerCase (p_from txData)"
  shows "createTransaction lib rt txData w = (Inl (Error ''Invalid signature.''), w)"
  using assms
  by (simp add: createTransaction_def verify_signature_def Let_def p_from_truncate
           split: sum.splits)

text \<open>
  Both ways of failing: a signature on which recovery throws, and a signature over a
  payload that was changed afterwards, from which another address is recovered.
\<close>

theorem createTransaction_rejects_bad_signature_witness:
  "createTransaction demo_ethers demo_runtime forged_txData initial_world
     = (Inl (Error ''Invalid signature.''), initial_world)
   \<and> createTransaction demo_ethers demo_runtime tampered_txData initial_world
     = (Inl (Error ''Invalid signature.''), initial_world)"
proof -
  have f: "verifyMessage demo_ethers (JSON_stringify demo_runtime (TxPayload.truncate forged_txData))
          (signature forged_txData) = Inl (Error ''invalid signature'')"
    by (simp add: signature_forged_txData demo_ethers_def)
  have t: "verifyMessage demo_ethers (JSON_stringify demo_runtime (TxPayload.truncate tampered_txData))
          (signature tampered_txData) = Inr ''0x0000000000000000000000000000000000000000''"
    by (simp add: tampered_txData_def demo_txData_def TxPayload.truncate_def
                  TxPayload.extend_def TxData.fields_def demo_payload_def demo_ethers_def
                  demo_runtime_def demo_computeAddress_def demo_key_def)
  have n: "toLowerCase ''0x0000000000000000000000000000000000000000'' \<noteq> toLowerCase (p_from tampered_txData)"
    by (simp add: tampered_txData_def demo_txData_def TxPayload.extend_def demo_payload_def
                  toLowerCase_def lower_char_def)
  show ?thesis
    using f t n
      createTransaction_rejects_bad_signature
        [where lib = demo_ethers and rt = demo_runtime and txData = forged_txData
           and w = initial_world]
      createTransaction_rejects_bad_signature
        [where lib = demo_ethers and rt = demo_runtime and txData = tampered_txData
           and w = initial_world]
    by simp
qed

lemma demo_txData_signed:
  "signature demo_txData
     = signMessage demo_ethers demo_key (JSON_stringify demo_runtime (TxPayload.truncate demo_txData))"
  by (simp add: signature_demo_txData truncate_demo_txData)

lemma demo_txData_recovers:
  "verifyMessage demo_ethers (JSON_stringify demo_runtime (TxPayload.truncate demo_txData))
     (signMessage demo_ethers demo_key (JSON_stringify demo_runtime (TxPayload.truncate demo_txData)))
   = Inr (computeAddress demo_ethers demo_key)"
  by (rule demo_verify_sign) (simp add: demo_key_def)

lemma demo_txData_sender:
  "toLowerCase (computeAddress demo_ethers demo_key) = toLowerCase (p_from demo_txData)"
  using toLowerCase_demo_address toLowerCase_demo_from p_from_truncate [of demo_txData]
  by (simp add: truncate_demo_txData demo_ethers_def)

lemma timestamp_digits: "Number_toString 1700000000000 = ''1700000000000''"
  by (simp add: Number_toString_def digit_chars.simps)

lemma five_digits: "Number_toString 5 = ''5''"
  by (simp add: Number_toString_def digit_chars.simps)

lemma quote_plain:
  "list_all (\<lambda>c. 32 \<le> (of_char c :: nat) \<and> c \<noteq> CHR 0x22 \<and> c \<noteq> CHR 0x5C) s \<Longrightarrow>
   JSON_quote s = CHR 0x22 # s @ [CHR 0x22]"
proof -
  assume a: "list_all (\<lambda>c. 32 \<le> (of_char c :: nat) \<and> c \<noteq> CHR 0x22 \<and> c \<noteq> CHR 0x5C) s"
  have "concat (map JSON_escape_char s) = s"
    using a by (induction s) (auto simp: JSON_escape_char_def)
  then show ?thesis by (simp add: JSON_quote_def)
qed

lemma declared_json:
  "JSON_stringify_ordered declared_order transfer_payload = transfer_json_declared"
  by (simp add: JSON_stringify_ordered_def declared_order_def transfer_payload_def
        payload_member_def JSON_object_def List.map_filter_simps quote_plain
        timestamp_digits five_digits transfer_json_declared_def)

lemma canonical_json: "canonical_JSON transfer_payload = transfer_json_canonical"
  by (simp add: canonical_JSON_def sort_members_def JSON_stringify_ordered_def
        transfer_payload_def payload_member_def JSON_object_def List.map_filter_simps
        quote_plain timestamp_digits five_digits transfer_json_canonical_def)

lemma from_first_json:
  "JSON_stringify_ordered from_first_order transfer_payload = transfer_json_from_first"
  by (simp add: JSON_stringify_ordered_def from_first_order_def transfer_payload_def
        payload_member_def JSON_object_def List.map_filter_simps quote_plain
        timestamp_digits five_digits transfer_json_from_first_def)

lemma truncate_signed_transfer: "TxPayload.truncate signed_transfer = transfer_payload"
  by (simp add: signed_transfer_def TxPayload.truncate_def TxPayload.extend_def
                transfer_payload_def)

lemma truncate_canonically_signed_transfer:
  "TxPayload.truncate canonically_signed_transfer = transfer_payload"
  by (simp add: canonically_signed_transfer_def TxPayload.truncate_def TxPayload.extend_def
                transfer_payload_def)

lemma signature_signed_transfer: "signature signed_transfer = signature_declared"
  by (simp add: signed_transfer_def TxPayload.extend_def TxData.fields_def)

lemma signature_canonically_signed_transfer:
  "signature canonically_signed_transfer = signature_canonical"
  by (simp add: canonically_signed_transfer_def TxPayload.extend_def TxData.fields_def)

lemma stringify_runtime_of_order:
  "JSON_stringify (runtime_of_order order) p = JSON_stringify_ordered order p"
  by (simp add: runtime_of_order_def)

lemma sender_lower_case:
  "toLowerCase sender_address = toLowerCase (p_from transfer_payload)"
  by (simp add: toLowerCase_def lower_char_def sender_address_def transfer_payload_def)

lemma recorded_sign_declared:
  "signMessage recorded_ethers sender_key transfer_json_declared = signature_declared"
  by (simp add: recorded_ethers_def)

lemma recorded_sign_canonical:
  "signMessage recorded_ethers sender_key transfer_json_canonical = signature_canonical"
  by (simp add: recorded_ethers_def transfer_json_declared_def transfer_json_canonical_def)

lemma recorded_address: "computeAddress recorded_ethers sender_key = sender_address"
  by (simp add: recorded_ethers_def)

lemma recorded_verify_declared:
  "verifyMessage recorded_ethers transfer_json_declared signature_declared = Inr sender_address"
  by (simp add: recorded_ethers_def)

lemma recorded_verify_canonical:
  "verifyMessage recorded_ethers transfer_json_canonical signature_canonical = Inr sender_address"
  by (simp add: recorded_ethers_def)

lemma recorded_verify_declared_canonical:
  "verifyMessage recorded_ethers transfer_json_declared signature_canonical
     = Inr ''0x114ED7488a86519e49a62b4574963AA89D28190c''"
  by (simp add: recorded_ethers_def signature_declared_def signature_canonical_def
                transfer_json_declared_def transfer_json_canonical_def)

lemma recorded_verify_from_first:
  "verifyMessage recorded_ethers transfer_json_from_first signature_declared
     = Inr ''0x5b291f0175F5BFC56d6Dad54C5377F1b1D03c4d0''"
  by (simp add: recorded_ethers_def signature_declared_def signature_canonical_def
                transfer_json_declared_def transfer_json_canonical_def
                transfer_json_from_first_def)

lemma other_addresses_differ:
  "toLowerCase ''0x114ED7488a86519e49a62b4574963AA89D28190c'' \<noteq> toLowerCase (p_from transfer_payload)"
  "toLowerCase ''0x5b291f0175F5BFC56d6Dad54C5377F1b1D03c4d0'' \<noteq> toLowerCase (p_from transfer_payload)"
  by (simp_all add: toLowerCase_def lower_char_def transfer_payload_def)

text \<open>
  Claim C2, as stated, fails: the message that \<^verbatim>\<open>createTransaction\<close> verifies is
  \<^verbatim>\<open>JSON.stringify(payload)\<close>, which follows the order in which the properties of
  \<^verbatim>\<open>txData\<close> were written, and no canonical form is computed. A signature made with
  the key of the declared sender over the canonical serialisation of the payload is a
  valid signature of the sender, and the submission is rejected with
  \<^verbatim>\<open>Error("Invalid signature.")\<close> when \<^verbatim>\<open>txData\<close> was written in the order of its
  type declaration. Likewise a signature over the serialisation in that declared order
  is rejected when \<^verbatim>\<open>txData\<close> was written with \<^verbatim>\<open>from\<close> and \<^verbatim>\<open>to\<close> first.
\<close>

theorem canonically_signed_transfer_rejected:
  "signature canonically_signed_transfer
     = signMessage recorded_ethers sender_key
         (canonical_JSON (TxPayload.truncate canonically_signed_transfer))
   \<and> verifyMessage recorded_ethers (canonical_JSON (TxPayload.truncate canonically_signed_transfer))
         (signature canonically_signed_transfer)
     = Inr (computeAddress recorded_ethers sender_key)
   \<and> toLowerCase (computeAddress recorded_ethers sender_key)
     = toLowerCase (p_from canonically_signed_transfer)
   \<and> createTransaction recorded_ethers (runtime_of_order declared_order)
         canonically_signed_transfer initial_world
     = (Inl (Error ''Invalid signature.''), initial_world)
   \<and> signature signed_transfer
     = signMessage recorded_ethers sender_key
         (JSON_stringify_ordered declared_order (TxPayload.truncate signed_transfer))
   \<and> createTransaction recorded_ethers (runtime_of_order from_first_order)
         signed_transfer initial_world
     = (Inl (Error ''Invalid signature.''), initial_world)"
proof (intro conjI)
  show "signature canonically_signed_transfer
     = signMessage recorded_ethers sender_key
         (canonical_JSON (TxPayload.truncate canonically_signed_transfer))"
    by (simp only: truncate_canonically_signed_transfer canonical_json
                   signature_canonically_signed_transfer recorded_sign_canonical)
  show "verifyMessage recorded_ethers (canonical_JSON (TxPayload.truncate canonically_signed_transfer))
         (signature canonically_signed_transfer)
     = Inr (computeAddress recorded_ethers sender_key)"
    by (simp only: truncate_canonically_signed_transfer canonical_json
                   signature_canonically_signed_transfer recorded_verify_canonical
                   recorded_address)
  show "toLowerCase (computeAddress recorded_ethers sender_key)
     = toLowerCase (p_from canonically_signed_transfer)"
    using sender_lower_case p_from_truncate [of canonically_signed_transfer]
    by (simp only: recorded_address truncate_canonically_signed_transfer)
  show "createTransaction recorded_ethers (runtime_of_order declared_order)
         canonically_signed_transfer initial_world
     = (Inl (Error ''Invalid signature.''), initial_world)"
    using other_addresses_differ(1)
    by (simp add: createTransaction_def verify_signature_def Let_def
          truncate_canonically_signed_transfer signature_canonically_signed_transfer
          stringify_runtime_of_order declared_json recorded_verify_declared_canonical)
  show "signature signed_transfer
     = signMessage recorded_ethers sender_key
         (JSON_stringify_ordered declared_order (TxPayload.truncate signed_transfer))"
    by (simp only: truncate_signed_transfer declared_json signature_signed_transfer
                   recorded_sign_declared)
  show "createTransaction recorded_ethers (runtime_of_order from_first_order)
         signed_transfer initial_world
     = (Inl (Error ''Invalid signature.''), initial_world)"
    using other_addresses_differ(2)
    by (simp add: createTransaction_def verify_signature_def Let_def
          truncate_signed_transfer signature_signed_transfer
          stringify_runtime_of_order from_first_json recorded_verify_from_first)
qed

text \<open>
  Claim C2, amended. The signature check of \<^verbatim>\<open>createTransaction\<close> passes exactly
  when \<^verbatim>\<open>ethers.verifyMessage\<close>, applied to the string that
  \<^verbatim>\<open>JSON.stringify(payload)\<close> returns in the call and to the signature, recovers an
  address equal to the declared \<^verbatim>\<open>from\<close> up to letter case; and exactly then the
  call does not throw \<^verbatim>\<open>Error("Invalid signature.")\<close>. In particular, for a payload
  signed with the key of the declared sender over exactly that string (the library
  recovering the address of the key from the signature), the recovered address equals
  \<^verbatim>\<open>from\<close> up to letter case and the check passes.
\<close>

theorem signature_check_passes_iff_sender_recovered:
  "(verify_signature lib (JSON_stringify rt (TxPayload.truncate txData)) (signature txData)
        (TxPayload.truncate txData) = Inr ()
      \<longleftrightarrow> (\<exists>signerAddress.
             verifyMessage lib (JSON_stringify rt (TxPayload.truncate txData)) (signature txData)
               = Inr signerAddress
             \<and> toLowerCase signerAddress = toLowerCase (p_from txData)))
   \<and> (fst (createTransaction lib rt txData w) \<noteq> Inl (Error ''Invalid signature.'')
      \<longleftrightarrow> (\<exists>signerAddress.
             verifyMessage lib (JSON_stringify rt (TxPayload.truncate txData)) (signature txData)
               = Inr signerAddress
             \<and> toLowerCase signerAddress = toLowerCase (p_from txData)))
   \<and> (signature txData = signMessage lib key (JSON_stringify rt (TxPayload.truncate txData))
        \<and> verifyMessage lib (JSON_stringify rt (TxPayload.truncate txData))
             (signMessage lib key (JSON_stringify rt (TxPayload.truncate txData)))
           = Inr (computeAddress lib key)
        \<and> toLowerCase (computeAddress lib key) = toLowerCase (p_from txData)
      \<longrightarrow> verify_signature lib (JSON_stringify rt (TxPayload.truncate txData)) (signature txData)
            (TxPayload.truncate txData) = Inr ()
          \<and> fst (createTransaction lib rt txData w) \<noteq> Inl (Error ''Invalid signature.''))"
proof -
  let ?msg = "JSON_stringify rt (TxPayload.truncate txData)"
  let ?ok = "\<exists>signerAddress. verifyMessage lib ?msg (signature txData) = Inr signerAddress
               \<and> toLowerCase signerAddress = toLowerCase (p_from txData)"
  have v: "verify_signature lib ?msg (signature txData) (TxPayload.truncate txData) = Inr () \<longleftrightarrow> ?ok"
    by (cases "verifyMessage lib ?msg (signature txData)")
       (simp_all add: verify_signature_def p_from_truncate)
  have c: "fst (createTransaction lib rt txData w) \<noteq> Inl (Error ''Invalid signature.'')
             \<longleftrightarrow> verify_signature lib ?msg (signature txData) (TxPayload.truncate txData) = Inr ()"
    by (cases "verify_signature lib ?msg (signature txData) (TxPayload.truncate txData)")
       (simp_all add: createTransaction_def last_block_height_def Let_def split: list.splits)
  from v c show ?thesis by auto
qed

text \<open>
  The transfer written in the order of its type declaration and signed over the string
  that order gives passes the check.
\<close>

theorem signature_check_passes_iff_sender_recovered_witness:
  "signature signed_transfer
     = signMessage recorded_ethers sender_key
         (JSON_stringify (runtime_of_order declared_order) (TxPayload.truncate signed_transfer))
   \<and> verifyMessage recorded_ethers
         (JSON_stringify (runtime_of_order declared_order) (TxPayload.truncate signed_transfer))
         (signMessage recorded_ethers sender_key
            (JSON_stringify (runtime_of_order declared_order) (TxPayload.truncate signed_transfer)))
     = Inr (computeAddress recorded_ethers sender_key)
   \<and> toLowerCase (computeAddress recorded_ethers sender_key) = toLowerCase (p_from signed_transfer)
   \<and> verify_signature recorded_ethers
         (JSON_stringify (runtime_of_order declared_order) (TxPayload.truncate signed_transfer))
         (signature signed_transfer) (TxPayload.truncate signed_transfer) = Inr ()
   \<and> fst (createTransaction recorded_ethers (runtime_of_order declared_order) signed_transfer
            initial_world)
       \<noteq> Inl (Error ''Invalid signature.'')"
proof -
  have s: "signature signed_transfer
     = signMessage recorded_ethers sender_key
         (JSON_stringify (runtime_of_order declared_order) (TxPayload.truncate signed_transfer))"
    by (simp only: stringify_runtime_of_order truncate_signed_transfer declared_json
                   signature_signed_transfer recorded_sign_declared)
  have r: "verifyMessage recorded_ethers
         (JSON_stringify (runtime_of_order declared_order) (TxPayload.truncate signed_transfer))
         (signMessage recorded_ethers sender_key
            (JSON_stringify (runtime_of_order declared_order) (TxPayload.truncate signed_transfer)))
     = Inr (computeAddress recorded_ethers sender_key)"
    by (simp only: stringify_runtime_of_order truncate_signed_transfer declared_json
                   recorded_sign_declared recorded_verify_declared recorded_address)
  have a: "toLowerCase (computeAddress recorded_ethers sender_key)
             = toLowerCase (p_from signed_transfer)"
    using sender_lower_case p_from_truncate [of signed_transfer]
    by (simp only: recorded_address truncate_signed_transfer)
  show ?thesis
    using s r a
      signature_check_passes_iff_sender_recovered
        [where lib = recorded_ethers and rt = "runtime_of_order declared_order"
           and txData = signed_transfer and key = sender_key and w = initial_world]
    by blast
qed

lemma client_getDebrisData: "client (snd (getDebrisData srv params w)) = client w"
  by (simp add: getDebrisData_def fetch_def split: sum.splits)

lemma client_getDebrisStatistics: "client (snd (getDebrisStatistics srv w)) = client w"
  by (simp add: getDebrisStatistics_def fetch_def split: sum.splits)

lemma client_getTransactions: "client (snd (getTransactions srv params w)) = client w"
  by (simp add: getTransactions_def fetch_def split: sum.splits)

lemma client_getBlocks: "client (snd (getBlocks srv params w)) = client w"
  by (simp add: getBlocks_def fetch_def split: sum.splits)

lemma client_getSmartContracts: "client (snd (getSmartContracts srv params w)) = client w"
  by (simp add: getSmartContracts_def fetch_def split: sum.splits)

lemma client_executeContract: "client (snd (executeContract js srv params w)) = client w"
  by (simp add: executeContract_def fetch_def split: sum.splits)

lemma client_getAnalytics: "client (snd (getAnalytics srv timeframe w)) = client w"
  by (simp add: getAnalytics_def fetch_def split: sum.splits)

lemma createTransaction_no_blocks:
  "blocks (client w) = [] \<Longrightarrow> snd (createTransaction lib rt txData w) = w"
  by (simp add: createTransaction_def last_block_height_def Let_def split: sum.splits)

lemma reachable_no_blocks:
  "reachable w \<Longrightarrow> blocks (client w) = [] \<and> c_transactions (client w) = []"
proof (induction rule: reachable.induct)
  case (construct b)
  show ?case by (simp add: new_BlockchainClient_def)
next
  case (call_createTransaction w lib rt txData)
  then show ?case by (simp add: createTransaction_no_blocks)
qed (simp_all add: client_getDebrisData client_getDebrisStatistics client_getTransactions
       client_getBlocks client_getSmartContracts client_executeContract client_getAnalytics)

text \<open>
  Claim C3. In every state the page can reach by constructing the client and calling
  methods, \<^verbatim>\<open>blocks\<close> and the stored \<^verbatim>\<open>transactions\<close> are empty; so
  \<^verbatim>\<open>createTransaction\<close> always throws and leaves the state as it was, it never
  returns \<^verbatim>\<open>{ success: true }\<close>, and on an input whose signature check passes it
  throws the \<^verbatim>\<open>TypeError\<close> of reading \<^verbatim>\<open>height\<close> from the missing last block.
\<close>

theorem createTransaction_never_succeeds:
  assumes "reachable w"
  shows "blocks (client w) = [] \<and> c_transactions (client w) = []
         \<and> (\<exists>e. createTransaction lib rt txData w = (Inl e, w))
         \<and> fst (createTransaction lib rt txData w) \<noteq> Inr \<lparr>cr_success = True\<rparr>
         \<and> (verify_signature lib (JSON_stringify rt (TxPayload.truncate txData)) (signature txData)
               (TxPayload.truncate txData) = Inr ()
             \<longrightarrow> createTransaction lib rt txData w
                   = (Inl (TypeError ''Cannot read properties of undefined (reading 'height')''), w))"
proof -
  from assms have b: "blocks (client w) = []" and t: "c_transactions (client w) = []"
    using reachable_no_blocks by auto
  have e: "\<exists>e. createTransaction lib rt txData w = (Inl e, w)"
    using b by (simp add: createTransaction_def last_block_height_def Let_def split: sum.splits)
  have v: "verify_signature lib (JSON_stringify rt (TxPayload.truncate txData)) (signature txData)
               (TxPayload.truncate txData) = Inr ()
             \<longrightarrow> createTransaction lib rt txData w
                   = (Inl (TypeError ''Cannot read properties of undefined (reading 'height')''), w)"
    using b by (simp add: createTransaction_def last_block_height_def Let_def)
  from e have "fst (createTransaction lib rt txData w) \<noteq> Inr \<lparr>cr_success = True\<rparr>" by auto
  with b t e v show ?thesis by blast
qed

theorem createTransaction_never_succeeds_witness:
  "reachable initial_world
   \<and> verify_signature demo_ethers (JSON_stringify demo_runtime (TxPayload.truncate demo_txData))
       (signature demo_txData) (TxPayload.truncate demo_txData) = Inr ()
   \<and> createTransaction demo_ethers demo_runtime demo_txData initial_world
       = (Inl (TypeError ''Cannot read properties of undefined (reading 'height')''), initial_world)"
proof -
  have r: "reachable initial_world"
    unfolding initial_world_def by (rule reachable.construct)
  have v: "verify_signature demo_ethers (JSON_stringify demo_runtime (TxPayload.truncate demo_txData))
       (signature demo_txData) (TxPayload.truncate demo_txData) = Inr ()"
    using demo_txData_recovers demo_txData_sender
    by (simp add: verify_signature_def demo_txData_signed [symmetric] p_from_truncate)
  show ?thesis
    using r v createTransaction_never_succeeds
            [OF r, where lib = demo_ethers and rt = demo_runtime and txData = demo_txData]
    by simp
qed

section \<open>Properties of useWallet\<close>

text \<open>
  Claim C5, as stated, fails when the stored value is not a private key: the
  constructor throws, the error is caught, and the hook goes on returning
  \<^verbatim>\<open>null\<close> instead of a wallet.
\<close>

theorem useWallet_invalid_stored_key:
  "stale_storage ''orbital-privateKey'' = Some ''not-a-key''
   \<and> snd (useWallet demo_ethers demo_wallet stale_storage) = None"
  by (simp add: stale_storage_def useWallet_def useWallet_effect_def demo_ethers_def
                demo_is_privateKey_def)

text \<open>
  Claim C5, amended. On mount, when no value or the empty string is stored under
  \<^verbatim>\<open>"orbital-privateKey"\<close>, the hook stores the private key of a random wallet under
  that key and returns that wallet. When a non-empty value is stored, storage is not
  modified: the hook returns the wallet constructed from the stored value if the
  library accepts it as a private key, and \<^verbatim>\<open>null\<close> if the constructor throws.
\<close>

theorem useWallet_on_mount:
  "(storage ''orbital-privateKey'' = None \<or> storage ''orbital-privateKey'' = Some [] \<longrightarrow>
      useWallet lib createRandom storage
        = (storage(''orbital-privateKey'' \<mapsto> privateKey createRandom), Some createRandom))
   \<and> (storage ''orbital-privateKey'' = Some key \<and> key \<noteq> [] \<and> new_Wallet lib key = Inr existingWallet \<longrightarrow>
      useWallet lib createRandom storage = (storage, Some existingWallet))
   \<and> (storage ''orbital-privateKey'' = Some key' \<and> key' \<noteq> [] \<and> new_Wallet lib key' = Inl e \<longrightarrow>
      useWallet lib createRandom storage = (storage, None))"
  by (auto simp: useWallet_def useWallet_effect_def)

lemma demo_key_accepted: "new_Wallet demo_ethers demo_key = Inr demo_wallet"
  by (simp add: demo_ethers_def demo_is_privateKey_def demo_key_def demo_wallet_def)

theorem useWallet_on_mount_witness:
  "useWallet demo_ethers demo_wallet Map.empty
     = ([''orbital-privateKey'' \<mapsto> demo_key], Some demo_wallet)
   \<and> useWallet demo_ethers \<lparr>privateKey = ''0x01'', address = ''0x02''\<rparr> [''orbital-privateKey'' \<mapsto> demo_key]
     = ([''orbital-privateKey'' \<mapsto> demo_key], Some demo_wallet)
   \<and> useWallet demo_ethers demo_wallet stale_storage = (stale_storage, None)"
proof -
  have a: "useWallet demo_ethers demo_wallet Map.empty
     = ([''orbital-privateKey'' \<mapsto> demo_key], Some demo_wallet)"
    using useWallet_on_mount [where storage = Map.empty and lib = demo_ethers
                                and createRandom = demo_wallet]
    by (simp add: demo_wallet_def)
  have b: "useWallet demo_ethers \<lparr>privateKey = ''0x01'', address = ''0x02''\<rparr> [''orbital-privateKey'' \<mapsto> demo_key]
     = ([''orbital-privateKey'' \<mapsto> demo_key], Some demo_wallet)"
    using demo_key_accepted
      useWallet_on_mount [where storage = "[''orbital-privateKey'' \<mapsto> demo_key]"
                            and lib = demo_ethers and key = demo_key
                            and existingWallet = demo_wallet
                            and createRandom = "\<lparr>privateKey = ''0x01'', address = ''0x02''\<rparr>"]
    by (simp add: demo_key_def)
  have c: "useWallet demo_ethers demo_wallet stale_storage = (stale_storage, None)"
    using useWallet_on_mount [where storage = stale_storage and lib = demo_ethers
                                and key' = "''not-a-key''"
                                and e = "TypeError ''invalid private key''"
                                and createRandom = demo_wallet]
    by (simp add: stale_storage_def demo_ethers_def demo_is_privateKey_def)
  from a b c show ?thesis by blast
qed

section \<open>Properties of the frame callbacks\<close>

lemma standard_meshE:
  assumes "standard_mesh r"
  obtains m i where "r = Some m" and "material m = One (MeshStandardMaterial i)"
  using assms
  by (auto simp: standard_mesh_def split: option.splits MeshMaterial.splits Material.splits)

lemma Printer3D_time_driven:
  assumes "Printer3D_ready s" and "Printer3D_ready s'"
  shows "Printer3D_view (Printer3D_frame True t s) = Printer3D_view (Printer3D_frame True t s')"
proof -
  from assms obtain e p e' p' where
    "p3_extruderRef s = Some e" "p3_printObjectRef s = Some p"
    "p3_extruderRef s' = Some e'" "p3_printObjectRef s' = Some p'"
    "p3_printProgress s = p3_lastProgressRef s" "p3_printProgress s' = p3_lastProgressRef s'"
    by (auto simp: Printer3D_ready_def)
  then show ?thesis
    by (simp add: Printer3D_frame_def Printer3D_view_def Let_def)
qed

lemma RoboticArm_time_driven:
  assumes "RoboticArm_ready s" and "RoboticArm_ready s'"
      and "ra_animationPhaseRef s = ra_animationPhaseRef s'"
  shows "RoboticArm_view (RoboticArm_frame True t s) = RoboticArm_view (RoboticArm_frame True t s')"
proof -
  from assms(1) obtain g j1 j2 where r: "ra_armRef s = Some g" "ra_joint1Ref s = Some j1"
      "ra_joint2Ref s = Some j2" "ra_activityProgress s = ra_lastHudProgressRef s"
      and e: "standard_mesh (ra_effectorRef s)"
    by (auto simp: RoboticArm_ready_def)
  from assms(2) obtain g' j1' j2' where r': "ra_armRef s' = Some g'" "ra_joint1Ref s' = Some j1'"
      "ra_joint2Ref s' = Some j2'" "ra_activityProgress s' = ra_lastHudProgressRef s'"
      and e': "standard_mesh (ra_effectorRef s')"
    by (auto simp: RoboticArm_ready_def)
  from e obtain m i where m: "ra_effectorRef s = Some m" "material m = One (MeshStandardMaterial i)"
    by (rule standard_meshE)
  from e' obtain m' i' where m': "ra_effectorRef s' = Some m'" "material m' = One (MeshStandardMaterial i')"
    by (rule standard_meshE)
  show ?thesis
    using r r' m m' assms(3)
    by (simp add: RoboticArm_frame_def RoboticArm_view_def Let_def applyEmissiveIntensity_def)
qed

lemma Furnace_time_driven:
  assumes "Furnace_ready s" and "Furnace_ready s'"
  shows "Furnace_view (Furnace_frame True t s) = Furnace_view (Furnace_frame True t s')"
proof -
  from assms(1) obtain g i p j out where
    r: "f_glowRef s = Some g" "material g = One (MeshStandardMaterial i)"
       "f_processingRef s = Some p" "material p = One (MeshStandardMaterial j)"
       "f_outputRef s = Some out"
    by (auto simp: Furnace_ready_def elim!: standard_meshE)
  from assms(2) obtain g' i' p' j' out' where
    r': "f_glowRef s' = Some g'" "material g' = One (MeshStandardMaterial i')"
       "f_processingRef s' = Some p'" "material p' = One (MeshStandardMaterial j')"
       "f_outputRef s' = Some out'"
    by (auto simp: Furnace_ready_def elim!: standard_meshE)
  show ?thesis
    using r r'
    by (simp add: Furnace_frame_def Furnace_view_def Let_def applyEmissiveIntensity_def)
qed

lemma Furnace_ring_advances:
  "map_option (\<lambda>m. vec_y (rotation m)) (f_processingRef (Furnace_frame True t s))
     = map_option (\<lambda>m. vec_y (rotation m) + 0.03) (f_processingRef s)"
  by (cases "f_processingRef s")
     (simp_all add: Furnace_frame_def Let_def applyEmissiveIntensity_def)

lemma DebrisCollectionArm_time_driven:
  assumes "DebrisCollectionArm_ready s" and "DebrisCollectionArm_ready s'"
  shows "DebrisCollectionArm_view (DebrisCollectionArm_frame True t s)
           = DebrisCollectionArm_view (DebrisCollectionArm_frame True t s')"
proof -
  from assms(1) obtain g sc i mg j d where
    r: "dc_armRef s = Some g" "dc_scannerRef s = Some sc" "material sc = One (MeshStandardMaterial i)"
       "dc_magnetRef s = Some mg" "material mg = One (MeshStandardMaterial j)"
       "dc_debrisRef s = Some d"
    by (auto simp: DebrisCollectionArm_ready_def elim!: standard_meshE)
  from assms(2) obtain g' sc' i' mg' j' d' where
    r': "dc_armRef s' = Some g'" "dc_scannerRef s' = Some sc'" "material sc' = One (MeshStandardMaterial i')"
       "dc_magnetRef s' = Some mg'" "material mg' = One (MeshStandardMaterial j')"
       "dc_debrisRef s' = Some d'"
    by (auto simp: DebrisCollectionArm_ready_def elim!: standard_meshE)
  show ?thesis
    using r r'
    by (simp add: DebrisCollectionArm_frame_def DebrisCollectionArm_view_def Let_def
                  applyEmissiveIntensity_def)
qed

lemma DebrisCollectionArm_rotations_advance:
  assumes "dc_armRef s \<noteq> None"
  shows "map_option (\<lambda>m. vec_z (rotation m)) (dc_scannerRef (DebrisCollectionArm_frame True t s))
           = map_option (\<lambda>m. vec_z (rotation m) + 0.05) (dc_scannerRef s)
         \<and> map_option (\<lambda>m. (vec_x (rotation m), vec_y (rotation m)))
             (dc_debrisRef (DebrisCollectionArm_frame True t s))
           = map_option (\<lambda>m. (vec_x (rotation m) + 0.02, vec_y (rotation m) + 0.01)) (dc_debrisRef s)"
  using assms
  by (cases "dc_scannerRef s"; cases "dc_debrisRef s")
     (simp_all add: DebrisCollectionArm_frame_def Let_def applyEmissiveIntensity_def)

lemma RepairStation_time_driven:
  assumes "RepairStation_ready s" and "RepairStation_ready s'" and "in_progress op"
  shows "RepairStation_view (RepairStation_frame True op rnd t s)
           = RepairStation_view (RepairStation_frame True op rnd' t s')"
proof -
  from assms(1) obtain tl ar dg i where
    r: "rs_toolRef s = Some tl" "rs_repairArmRef s = Some ar" "rs_diagnosticRef s = Some dg"
       "material dg = One (MeshStandardMaterial i)"
    by (auto simp: RepairStation_ready_def elim!: standard_meshE)
  from assms(2) obtain tl' ar' dg' i' where
    r': "rs_toolRef s' = Some tl'" "rs_repairArmRef s' = Some ar'" "rs_diagnosticRef s' = Some dg'"
       "material dg' = One (MeshStandardMaterial i')"
    by (auto simp: RepairStation_ready_def elim!: standard_meshE)
  show ?thesis
    using r r' assms(3)
    by (simp add: RepairStation_frame_def RepairStation_view_def Let_def
                  applyEmissiveIntensity_def)
qed

text \<open>
  Claim C7, as stated, fails: a frame update is not a function of the elapsed time
  alone. The furnace's callback turns the processing ring by 0.03 from wherever it
  stands, so two updates at the same elapsed time leave the ring at two different
  angles; and the furnace's panel shows a value computed from \<^verbatim>\<open>Math.random()\<close>,
  which differs between two renders at the same time.
\<close>

theorem furnace_frames_differ_at_same_time:
  "map_option (\<lambda>m. vec_y (rotation m)) (f_processingRef (Furnace_frame True 0 (furnace_at fresh_mesh)))
     = Some (3 / 100)
   \<and> map_option (\<lambda>m. vec_y (rotation m))
        (f_processingRef (Furnace_frame True 0 (Furnace_frame True 0 (furnace_at fresh_mesh))))
     = Some (6 / 100)
   \<and> f_processingRef (Furnace_frame True 0 (Furnace_frame True 0 (furnace_at fresh_mesh)))
     \<noteq> f_processingRef (Furnace_frame True 0 (furnace_at fresh_mesh))
   \<and> Furnace_hud True 0 0 = Some (1650, 25)
   \<and> Furnace_hud True 0 (1 / 2) = Some (1650, 50)"
  by (simp add: Furnace_frame_def furnace_at_def fresh_mesh_def applyEmissiveIntensity_def
                Furnace_hud_def)

text \<open>
  Claim C7, amended. With a component active and ready, the values its callback assigns
  from an expression in the elapsed time are the same after two frame updates at the
  same elapsed time, whatever the two states before: for the 3D printer the extruder's
  position, the print object's height and vertical scale and the HUD progress; for the
  robotic arm the joint rotations, the effector's scale and glow and the HUD progress,
  when the two arms hold the same phase (drawn from \<^verbatim>\<open>Math.random()\<close> at mount);
  for the furnace the glow's scale and the two glow intensities and the output's
  height; for the debris-collection arm its rotation, the two glow intensities and the
  debris' height; for the repair station, during an operation in progress, the tool's
  and the arm's transforms and the diagnostic glow, whatever \<^verbatim>\<open>Math.random()\<close>
  yields for the sparks. The furnace's ring and the collector's scanner and debris are
  instead turned by a fixed step per frame from the angle they retain.
\<close>

theorem frame_updates_time_driven_part:
  "(Printer3D_ready p \<and> Printer3D_ready p' \<longrightarrow>
      Printer3D_view (Printer3D_frame True t p) = Printer3D_view (Printer3D_frame True t p'))
   \<and> (RoboticArm_ready a \<and> RoboticArm_ready a' \<and> ra_animationPhaseRef a = ra_animationPhaseRef a' \<longrightarrow>
      RoboticArm_view (RoboticArm_frame True t a) = RoboticArm_view (RoboticArm_frame True t a'))
   \<and> (Furnace_ready f \<and> Furnace_ready f' \<longrightarrow>
      Furnace_view (Furnace_frame True t f) = Furnace_view (Furnace_frame True t f'))
   \<and> (DebrisCollectionArm_ready d \<and> DebrisCollectionArm_ready d' \<longrightarrow>
      DebrisCollectionArm_view (DebrisCollectionArm_frame True t d)
        = DebrisCollectionArm_view (DebrisCollectionArm_frame True t d'))
   \<and> (RepairStation_ready r \<and> RepairStation_ready r' \<and> in_progress op \<longrightarrow>
      RepairStation_view (RepairStation_frame True op rnd t r)
        = RepairStation_view (RepairStation_frame True op rnd' t r'))
   \<and> map_option (\<lambda>m. vec_y (rotation m)) (f_processingRef (Furnace_frame True t f))
        = map_option (\<lambda>m. vec_y (rotation m) + 0.03) (f_processingRef f)
   \<and> (dc_armRef d \<noteq> None \<longrightarrow>
        map_option (\<lambda>m. vec_z (rotation m)) (dc_scannerRef (DebrisCollectionArm_frame True t d))
          = map_option (\<lambda>m. vec_z (rotation m) + 0.05) (dc_scannerRef d)
        \<and> map_option (\<lambda>m. (vec_x (rotation m), vec_y (rotation m)))
            (dc_debrisRef (DebrisCollectionArm_frame True t d))
          = map_option (\<lambda>m. (vec_x (rotation m) + 0.02, vec_y (rotation m) + 0.01)) (dc_debrisRef d))"
  using Printer3D_time_driven [of p p' t] RoboticArm_time_driven [of a a' t]
        Furnace_time_driven [of f f' t] DebrisCollectionArm_time_driven [of d d' t]
        RepairStation_time_driven [of r r' op rnd t rnd'] Furnace_ring_advances [of t f]
        DebrisCollectionArm_rotations_advance [of d t]
  by blast

lemma ready_demo:
  "Printer3D_ready (printer_at fresh_mesh 0)" "Printer3D_ready (printer_at moved_mesh 37)"
  "RoboticArm_ready (arm_at fresh_mesh 0)" "RoboticArm_ready (arm_at moved_mesh 37)"
  "Furnace_ready (furnace_at fresh_mesh)" "Furnace_ready (furnace_at moved_mesh)"
  "DebrisCollectionArm_ready (collector_at fresh_mesh)"
  "DebrisCollectionArm_ready (collector_at moved_mesh)"
  "RepairStation_ready (station_at fresh_mesh)" "RepairStation_ready (station_at moved_mesh)"
  "in_progress (Some demo_operation)"
  "ra_animationPhaseRef (arm_at fresh_mesh 0) = ra_animationPhaseRef (arm_at moved_mesh 37)"
  "dc_armRef (collector_at fresh_mesh) \<noteq> None"
  by (simp_all add: Printer3D_ready_def RoboticArm_ready_def Furnace_ready_def
        DebrisCollectionArm_ready_def RepairStation_ready_def standard_mesh_def
        printer_at_def arm_at_def furnace_at_def collector_at_def station_at_def
        fresh_mesh_def moved_mesh_def in_progress_def demo_operation_def)

theorem frame_updates_time_driven_part_witness:
  "Printer3D_view (Printer3D_frame True 2 (printer_at fresh_mesh 0))
     = Printer3D_view (Printer3D_frame True 2 (printer_at moved_mesh 37))
   \<and> RoboticArm_view (RoboticArm_frame True 2 (arm_at fresh_mesh 0))
     = RoboticArm_view (RoboticArm_frame True 2 (arm_at moved_mesh 37))
   \<and> Furnace_view (Furnace_frame True 2 (furnace_at fresh_mesh))
     = Furnace_view (Furnace_frame True 2 (furnace_at moved_mesh))
   \<and> DebrisCollectionArm_view (DebrisCollectionArm_frame True 2 (collector_at fresh_mesh))
     = DebrisCollectionArm_view (DebrisCollectionArm_frame True 2 (collector_at moved_mesh))
   \<and> RepairStation_view
       (RepairStation_frame True (Some demo_operation)
          (\<lambda>i. \<lparr>draw_y = 0, draw_x = 0, draw_z = 0, redraw_x = 0, redraw_z = 0\<rparr>) 2
          (station_at fresh_mesh))
     = RepairStation_view
       (RepairStation_frame True (Some demo_operation)
          (\<lambda>i. \<lparr>draw_y = 1, draw_x = 1, draw_z = 1, redraw_x = 1, redraw_z = 1\<rparr>) 2
          (station_at moved_mesh))"
  using ready_demo
    frame_updates_time_driven_part
      [where p = "printer_at fresh_mesh 0" and p' = "printer_at moved_mesh 37"
         and a = "arm_at fresh_mesh 0" and a' = "arm_at moved_mesh 37"
         and f = "furnace_at fresh_mesh" and f' = "furnace_at moved_mesh"
         and d = "collector_at fresh_mesh" and d' = "collector_at moved_mesh"
         and r = "station_at fresh_mesh" and r' = "station_at moved_mesh"
         and op = "Some demo_operation" and t = 2
         and rnd = "\<lambda>i. \<lparr>draw_y = 0, draw_x = 0, draw_z = 0, redraw_x = 0, redraw_z = 0\<rparr>"
         and rnd' = "\<lambda>i. \<lparr>draw_y = 1, draw_x = 1, draw_z = 1, redraw_x = 1, redraw_z = 1\<rparr>"]
  by blast

end
